theory Spec2Isabelle
  imports Complex_Main
begin

section \<open>The JavaScript values the program computes with\<close>

text \<open>
  The program is a TypeScript/React front end that keeps versioned prompts: \<open>types.ts\<close>
  (the data model), \<open>services/ai.ts\<close> (\<open>AiService\<close>, the two model backends) and
  \<open>App.tsx\<close> (the state of the page and its handlers). This theory embeds the values the
  handlers compute with, then \<open>AiService\<close>, then the state and the handlers of \<open>App\<close>,
  and proves the properties C1 to C10 about them.

  A string is a list of code units; \<open>char\<close> has 256 values, so the embedding covers the
  strings whose code units are below 256 (all version tags the program writes are ASCII).
\<close>

subsection \<open>Numbers\<close>

text \<open>
  \<open>parseInt\<close> yields \<open>NaN\<close> or an integer-valued double, and the program only adds one to
  it and prints it. A \<open>number\<close> is therefore \<open>NaN\<close>, an infinity, or a finite double that
  is an integer, carried by its value. (\<open>-0\<close> is carried as \<open>0\<close>: \<open>-0 + 1\<close> is \<open>1\<close>,
  \<open>isNaN(-0)\<close> is false and \<open>-0\<close> prints as \<open>0\<close>.)
\<close>

datatype number = NaN | PosInf | NegInf | Fin int

text \<open>The number of binary digits of a natural number.\<close>

fun bit_length :: "nat \<Rightarrow> nat" where
  "bit_length n = (if n = 0 then 0 else Suc (bit_length (n div 2)))"

declare bit_length.simps [simp del]

text \<open>
  A double has a significand of 53 bits. \<open>round_nat m\<close> is the double nearest to the
  natural number \<open>m\<close>, ties to the even significand (IEEE 754 round-to-nearest-even,
  which is how ECMAScript turns a mathematical value into a Number); \<open>to_double\<close> adds the
  sign and the overflow to infinity.
\<close>

definition round_nat :: "nat \<Rightarrow> nat" where
  "round_nat m =
     (let e = bit_length m - 53 in
      if e = 0 then m
      else let q = m div 2 ^ e; r = m mod 2 ^ e; h = 2 ^ (e - 1)
           in (if h < r \<or> (r = h \<and> odd q) then q + 1 else q) * 2 ^ e)"

definition to_double :: "int \<Rightarrow> number" where
  "to_double i =
     (let m = round_nat (nat \<bar>i\<bar>) in
      if 2 ^ 1024 \<le> m then (if i < 0 then NegInf else PosInf)
      else Fin (if i < 0 then - int m else int m))"

text \<open>\<open>isNaN(x)\<close> and \<open>x + 1\<close> on a Number.\<close>

definition isNaN :: "number \<Rightarrow> bool" where
  "isNaN x = (case x of NaN \<Rightarrow> True | _ \<Rightarrow> False)"

definition plus_one :: "number \<Rightarrow> number" where
  "plus_one x = (case x of Fin i \<Rightarrow> to_double (i + 1) | _ \<Rightarrow> x)"

subsection \<open>Printing a number\<close>

text \<open>The decimal digits of a natural number, most significant first.\<close>

definition digit_char :: "nat \<Rightarrow> char" where
  "digit_char d = ''0123456789'' ! d"

fun dec :: "nat \<Rightarrow> string" where
  "dec n = (if n < 10 then [digit_char n] else dec (n div 10) @ [digit_char (n mod 10)])"

declare dec.simps [simp del]

text \<open>
  \<open>Number::toString\<close> prints the shortest digit string \<open>s\<close> (\<open>k\<close> digits) and the exponent
  \<open>n\<close> such that \<open>s * 10^(n - k)\<close> reads back as the same double, the closest to it when
  several \<open>s\<close> of that length do. \<open>candidate x n k\<close> is that \<open>s\<close> for a positive integer
  double \<open>x\<close> of \<open>n\<close> decimal digits and a length \<open>k \<le> n\<close>, if there is one: of the two
  multiples of \<open>10^(n - k)\<close> around \<open>x\<close>, those that round to \<open>x\<close>, the nearer first.
\<close>

definition candidate :: "nat \<Rightarrow> nat \<Rightarrow> nat \<Rightarrow> nat option" where
  "candidate x n k =
     (let p = 10 ^ (n - k); lo = x div p; hi = lo + 1;
          ok_lo = (10 ^ (k - 1) \<le> lo \<and> round_nat (lo * p) = x);
          ok_hi = (hi < 10 ^ k \<and> round_nat (hi * p) = x);
          lo_first = (x - lo * p < hi * p - x \<or> (x - lo * p = hi * p - x \<and> even lo))
      in if ok_lo \<and> (lo_first \<or> \<not> ok_hi) then Some lo
         else if ok_hi then Some hi
         else None)"

text \<open>The candidate of the first length, among those given, that has one.\<close>

fun first_candidate :: "nat \<Rightarrow> nat \<Rightarrow> nat list \<Rightarrow> nat \<times> nat" where
  "first_candidate x n [] = (x, n)"
| "first_candidate x n (k # ks) =
     (case candidate x n k of
        Some s \<Rightarrow> (s, k)
      | None \<Rightarrow> first_candidate x n ks)"

text \<open>
  The digits of a positive integer double. Up to \<open>2^53\<close> every integer is a double, so the
  shortest string that reads back as \<open>x\<close> is the expansion of \<open>x\<close> itself, its final zeros
  included. Above, the digits are the shortest candidate (the single digit \<open>1\<close> with one
  more place when the next power of ten itself reads back as \<open>x\<close>), followed by zeros up
  to 21 places and written with an exponent beyond (\<open>1.1805916207174113e+21\<close>).
\<close>

definition shortest_digits :: "nat \<Rightarrow> nat \<times> nat \<times> nat" where
  "shortest_digits x =
     (let n = length (dec x)
      in if round_nat (10 ^ n) = x then (1, 1, n + 1)
         else let (s, k) = first_candidate x n [1 ..< Suc n] in (s, k, n))"

definition digits_of_double :: "nat \<Rightarrow> string" where
  "digits_of_double x =
     (if x \<le> 2 ^ 53 then dec x
      else let (s, k, n) = shortest_digits x
           in if n \<le> 21 then dec s @ replicate (n - k) (CHR ''0'')
              else (case dec s of
                      [] \<Rightarrow> []
                    | d # ds \<Rightarrow> if ds = [] then [d] else d # CHR ''.'' # ds)
                   @ ''e+'' @ dec (n - 1))"

definition number_to_string :: "number \<Rightarrow> string" where
  "number_to_string x =
     (case x of
        NaN \<Rightarrow> ''NaN''
      | PosInf \<Rightarrow> ''Infinity''
      | NegInf \<Rightarrow> ''-Infinity''
      | Fin i \<Rightarrow> (if i < 0 then CHR ''-'' # digits_of_double (nat (- i)) else digits_of_double (nat i)))"

subsection \<open>\<open>parseInt\<close>\<close>

text \<open>
  The white space \<open>parseInt\<close> skips, among the code units below 256: TAB, LF, VT, FF, CR,
  SP and NBSP.
\<close>

definition is_ws :: "char \<Rightarrow> bool" where
  "is_ws c = ((of_char c :: nat) \<in> {9, 10, 11, 12, 13, 32, 160})"

text \<open>The value of a digit of radix \<open>R\<close>: \<open>0-9\<close>, then \<open>a-z\<close> or \<open>A-Z\<close> from ten on.\<close>

definition digit_of :: "nat \<Rightarrow> char \<Rightarrow> nat option" where
  "digit_of R c =
     (let n = (of_char c :: nat);
          v = (if 48 \<le> n \<and> n \<le> 57 then Some (n - 48)
               else if 97 \<le> n \<and> n \<le> 122 then Some (n - 87)
               else if 65 \<le> n \<and> n \<le> 90 then Some (n - 55)
               else None)
      in case v of None \<Rightarrow> None | Some d \<Rightarrow> if d < R then Some d else None)"

definition is_digit :: "nat \<Rightarrow> char \<Rightarrow> bool" where
  "is_digit R c = (digit_of R c \<noteq> None)"

definition digits_value :: "nat \<Rightarrow> string \<Rightarrow> nat" where
  "digits_value R ds = foldl (\<lambda>a c. a * R + (case digit_of R c of Some d \<Rightarrow> d | None \<Rightarrow> 0)) 0 ds"

text \<open>
  \<open>parseInt(string)\<close> with no radix argument: skip leading white space, take a sign, take
  the prefix \<open>0x\<close> or \<open>0X\<close> (radix 16, otherwise radix 10), read digits as far as they go;
  no digit gives \<open>NaN\<close>. (The standard lets an implementation replace the digits after the
  twentieth by zeros in radix 10; the embedding reads them all.)
\<close>

definition take_sign :: "string \<Rightarrow> bool \<times> string" where
  "take_sign S =
     (case S of
        c # r \<Rightarrow> if c = CHR ''-'' then (True, r)
                 else if c = CHR ''+'' then (False, r)
                 else (False, S)
      | [] \<Rightarrow> (False, S))"

definition take_radix :: "string \<Rightarrow> nat \<times> string" where
  "take_radix S =
     (case S of
        a # b # r \<Rightarrow> if a = CHR ''0'' \<and> (b = CHR ''x'' \<or> b = CHR ''X'') then (16, r)
                     else (10, S)
      | _ \<Rightarrow> (10, S))"

definition parseInt :: "string \<Rightarrow> number" where
  "parseInt inputString =
     (let (neg, S1) = take_sign (dropWhile is_ws inputString);
          (R, S2) = take_radix S1;
          Z = takeWhile (is_digit R) S2
      in if Z = [] then NaN
         else to_double (if neg then - int (digits_value R Z) else int (digits_value R Z)))"

subsection \<open>The string methods\<close>

text \<open>
  \<open>s.replace(c, '')\<close> with a one-character pattern removes the first occurrence of the
  character. \<open>s.split(c)\<close> cuts at every occurrence and always returns at least one piece.
  \<open>xs[0]\<close> is \<open>undefined\<close> on an empty array, and \<open>parseInt(undefined)\<close> reads the string
  \<open>undefined\<close>.
\<close>

definition replace_first :: "char \<Rightarrow> string \<Rightarrow> string" where
  "replace_first c s = remove1 c s"

fun split :: "char \<Rightarrow> string \<Rightarrow> string list" where
  "split d [] = [[]]"
| "split d (c # cs) =
     (if c = d then [] # split d cs
      else (case split d cs of w # ws \<Rightarrow> (c # w) # ws | [] \<Rightarrow> [[c]]))"

definition first_elem :: "'a list \<Rightarrow> 'a option" where
  "first_elem xs = (case xs of [] \<Rightarrow> None | x # _ \<Rightarrow> Some x)"

definition string_of_arg :: "string option \<Rightarrow> string" where
  "string_of_arg v = (case v of None \<Rightarrow> ''undefined'' | Some s \<Rightarrow> s)"

subsection \<open>Values read from JSON\<close>

text \<open>
  \<open>JSON.parse(text) as AIAnalysisResult\<close> is an unchecked cast: what the program holds at
  run time is whatever JSON value the text denotes. A finite JSON number is carried by its
  value, an object by the list of its properties, each listed once (the program only looks
  properties up). \<open>undefined\<close> is not a JSON value; a \<open>jsval\<close> is a JSON value or
  \<open>undefined\<close> (\<open>None\<close>).
\<close>

datatype json =
    JNull
  | JBool bool
  | JNum rat
  | JStr string
  | JArr "json list"
  | JObj "(string \<times> json) list"

type_synonym jsval = "json option"

text \<open>An \<open>Error\<close> object: its class name and its message.\<close>

datatype js_error = JsError string string

fun message :: "js_error \<Rightarrow> string" where
  "message (JsError n m) = m"

text \<open>The test \<open>v ? _ : _\<close> on a JSON value: objects and arrays are always true.\<close>

fun truthy :: "json \<Rightarrow> bool" where
  "truthy JNull = False"
| "truthy (JBool b) = b"
| "truthy (JNum q) = (q \<noteq> 0)"
| "truthy (JStr s) = (s \<noteq> [])"
| "truthy (JArr xs) = True"
| "truthy (JObj kvs) = True"

text \<open>
  An array index as a property name is the decimal numeral of the index (\<open>0\<close>, \<open>1\<close>, ...,
  no leading zero).
\<close>

definition array_index :: "string \<Rightarrow> nat option" where
  "array_index k = (if k \<noteq> [] \<and> dec (digits_value 10 k) = k then Some (digits_value 10 k) else None)"

text \<open>
  The property read \<open>v.k\<close> (or \<open>v[0]\<close>, with \<open>k\<close> the string \<open>0\<close>). Reading a property of
  \<open>undefined\<close> or \<open>null\<close> throws a \<open>TypeError\<close> (the message is the engine's; V8's is
  given). An object has the properties the JSON text gave it, an array and a string have
  \<open>length\<close> and their indices, a number and a boolean have none of the properties the
  program reads. (Properties inherited from the prototypes are left out: the program reads
  \<open>optimizedPrompt\<close>, \<open>changeLog\<close>, \<open>choices\<close>, \<open>0\<close>, \<open>message\<close>, \<open>content\<close> and
  \<open>length\<close>.)
\<close>

definition quoted :: "string \<Rightarrow> string" where
  "quoted k = [CHR 0x27] @ k @ [CHR 0x27]"

definition read_prop :: "jsval \<Rightarrow> string \<Rightarrow> js_error + jsval" where
  "read_prop v k =
     (case v of
        None \<Rightarrow> Inl (JsError ''TypeError''
                 (''Cannot read properties of undefined (reading '' @ quoted k @ '')''))
      | Some JNull \<Rightarrow> Inl (JsError ''TypeError''
                 (''Cannot read properties of null (reading '' @ quoted k @ '')''))
      | Some (JObj kvs) \<Rightarrow> Inr (map_of kvs k)
      | Some (JArr xs) \<Rightarrow>
          Inr (if k = ''length'' then Some (JNum (of_nat (length xs)))
               else case array_index k of
                      Some i \<Rightarrow> if i < length xs then Some (xs ! i) else None
                    | None \<Rightarrow> None)
      | Some (JStr s) \<Rightarrow>
          Inr (if k = ''length'' then Some (JNum (of_nat (length s)))
               else case array_index k of
                      Some i \<Rightarrow> if i < length s then Some (JStr [s ! i]) else None
                    | None \<Rightarrow> None)
      | Some (JBool b) \<Rightarrow> Inr None
      | Some (JNum q) \<Rightarrow> Inr None)"

text \<open>
  The own enumerable properties copied by the spread \<open>{...v}\<close>: those of an object, the
  indexed elements of an array or of a string, none of a number, a boolean or \<open>null\<close>.
\<close>

definition spread :: "json \<Rightarrow> (string \<times> json) list" where
  "spread v =
     (case v of
        JObj kvs \<Rightarrow> kvs
      | JArr xs \<Rightarrow> map (\<lambda>i. (dec i, xs ! i)) [0 ..< length xs]
      | JStr s \<Rightarrow> map (\<lambda>i. (dec i, JStr [s ! i])) [0 ..< length s]
      | _ \<Rightarrow> [])"

definition set_prop :: "string \<Rightarrow> json \<Rightarrow> (string \<times> json) list \<Rightarrow> (string \<times> json) list" where
  "set_prop k v kvs = (k, v) # filter (\<lambda>kv. fst kv \<noteq> k) kvs"

section \<open>The data model (\<open>types.ts\<close>)\<close>

text \<open>
  \<^verbatim>\<open>export interface PromptRecord {
    id?: number; title: string; summary: string; content: string;
    excontext?: string; version: string; created_at?: string;
  }\<close>
  The record is polymorphic in the type of \<open>content\<close>: the Draft and the stored records
  hold a string there, while the object \<open>handleSave\<close> hands to the storage service holds
  whatever \<open>aiResult.optimizedPrompt\<close> is at run time.
\<close>

record 'c prompt_fields =
  id' :: "int option"
  title :: string
  summary :: string
  content :: 'c
  excontext :: "string option"
  version :: string
  created_at :: "string option"

type_synonym PromptRecord = "string prompt_fields"

type_synonym save_payload = "jsval prompt_fields"

datatype ViewMode = LIST | EDIT | PREVIEW

datatype AIModel = GEMINI | QWEN

text \<open>\<open>QWEN_CONFIG\<close>; its \<open>API_KEY\<close> is a credential and is left as a parameter (see \<open>env\<close>).\<close>

definition QWEN_ENDPOINT :: string where
  "QWEN_ENDPOINT = ''https://dashscope.aliyuncs.com/compatible-mode/v1''"

definition QWEN_MODEL :: string where
  "QWEN_MODEL = ''qwen-plus''"

section \<open>The collaborators\<close>

text \<open>
  What the program awaits: \<open>fetch\<close>, the Gemini SDK, \<open>JSON.parse\<close> and the storage service
  (\<open>services/db.ts\<close>, which is not among the sources). Each is a function from the request
  to either the exception it throws (\<open>Inl\<close>) or its result (\<open>Inr\<close>).

  The body of a request is kept as the value handed to \<open>JSON.stringify\<close>. The result of the
  SDK call is the \<open>text\<close> of the response, a string or \<open>undefined\<close>; the call stands for
  \<open>new GoogleGenAI({apiKey})\<close> followed by \<open>ai.models.generateContent\<close>. \<open>JSON.parse\<close> takes
  any value (it converts its argument to a string first). \<open>systemPrompt\<close> stands for the
  fixed instruction text of \<open>analyzePrompt\<close>, a long constant that is not ASCII.
  \<open>process_env_API_KEY\<close> is \<open>process.env.API_KEY\<close>, \<open>None\<close> when there is none. The
  results of the storage service are taken to have their declared types, and every call
  is taken to settle (a request that stays pending for ever is not modelled).
\<close>

record http_request =
  url :: string
  http_method :: string
  headers :: "(string \<times> string) list"
  body :: "json option"

record http_response =
  ok :: bool
  res_json :: "js_error + json"

record gemini_request =
  apiKey :: "string option"
  model_name :: string
  contents_text :: string
  responseMimeType :: string

record env =
  process_env_API_KEY :: "string option"
  QWEN_API_KEY :: string
  systemPrompt :: string
  fetch :: "http_request \<Rightarrow> js_error + http_response"
  generateContent :: "gemini_request \<Rightarrow> js_error + string option"
  JSON_parse :: "jsval \<Rightarrow> js_error + json"
  createPrompt :: "save_payload \<Rightarrow> js_error + PromptRecord"
  updatePrompt :: "int \<Rightarrow> save_payload \<Rightarrow> js_error + PromptRecord"
  getAllPrompts :: "js_error + PromptRecord list option"

text \<open>The calls a handler sends out, in order.\<close>

datatype db_call =
    CreatePrompt save_payload
  | UpdatePrompt int save_payload

datatype call =
    Fetch http_request
  | GenerateContent gemini_request
  | Db db_call
  | GetAllPrompts

section \<open>\<open>AiService\<close> (\<open>services/ai.ts\<close>)\<close>

text \<open>
  \<^verbatim>\<open>async checkConnection(model: AIModel): Promise<boolean> {
    try {
      if (model === AIModel.GEMINI) { return !!process.env.API_KEY; }
      else {
        const res = await fetch(`${QWEN_CONFIG.ENDPOINT}/models`,
          { headers: { 'Authorization': `Bearer ${QWEN_CONFIG.API_KEY}` } });
        return res.ok;
      }
    } catch (e) { return false; }
  }\<close>
  \<open>checkConnection_try\<close> is the body of the \<open>try\<close>, \<open>checkConnection\<close> the whole function:
  \<open>Inl\<close> would be a rejected promise.
\<close>

definition models_request :: "env \<Rightarrow> http_request" where
  "models_request E =
     \<lparr> url = QWEN_ENDPOINT @ ''/models'', http_method = ''GET'',
       headers = [(''Authorization'', ''Bearer '' @ QWEN_API_KEY E)], body = None \<rparr>"

definition checkConnection_try :: "env \<Rightarrow> AIModel \<Rightarrow> js_error + bool" where
  "checkConnection_try E model =
     (case model of
        GEMINI \<Rightarrow> Inr (case process_env_API_KEY E of None \<Rightarrow> False | Some k \<Rightarrow> k \<noteq> [])
      | QWEN \<Rightarrow> (case fetch E (models_request E) of
                    Inl e \<Rightarrow> Inl e
                  | Inr res \<Rightarrow> Inr (ok res)))"

definition checkConnection :: "env \<Rightarrow> AIModel \<Rightarrow> js_error + bool" where
  "checkConnection E model =
     (case checkConnection_try E model of
        Inl e \<Rightarrow> Inr False
      | Inr b \<Rightarrow> Inr b)"

text \<open>
  \<^verbatim>\<open>async analyzePrompt(model, promptContent, title): Promise<AIAnalysisResult> {
    const userMessage = `Title: ${title}\nContent:\n${promptContent}`;
    if (model === AIModel.GEMINI) {
      const ai = new GoogleGenAI({ apiKey: process.env.API_KEY });
      const response = await ai.models.generateContent({
        model: 'gemini-3-flash-preview',
        contents: [{ role: 'user', parts: [{ text: systemPrompt + "\n\n" + userMessage }] }],
        config: { responseMimeType: "application/json" } });
      const text = response.text || "{}";
      return JSON.parse(text) as AIAnalysisResult;
    } else {
      const res = await fetch(`${QWEN_CONFIG.ENDPOINT}/chat/completions`, {
        method: 'POST',
        headers: { 'Content-Type': 'application/json',
                   'Authorization': `Bearer ${QWEN_CONFIG.API_KEY}` },
        body: JSON.stringify({ model: QWEN_CONFIG.MODEL,
          messages: [{ role: 'system', content: systemPrompt },
                     { role: 'user', content: userMessage }],
          response_format: { type: "json_object" } }) });
      if (!res.ok) throw new Error("Qwen API failed");
      const data = await res.json();
      const content = data.choices[0].message.content;
      return JSON.parse(content) as AIAnalysisResult;
    }
  }\<close>
\<close>

definition newline :: string where
  "newline = [CHR 0x0A]"

definition userMessage :: "string \<Rightarrow> string \<Rightarrow> string" where
  "userMessage title_arg promptContent =
     ''Title: '' @ title_arg @ newline @ ''Content:'' @ newline @ promptContent"

definition gemini_request_of :: "env \<Rightarrow> string \<Rightarrow> string \<Rightarrow> gemini_request" where
  "gemini_request_of E promptContent title_arg =
     \<lparr> apiKey = process_env_API_KEY E,
       model_name = ''gemini-3-flash-preview'',
       contents_text = systemPrompt E @ newline @ newline @ userMessage title_arg promptContent,
       responseMimeType = ''application/json'' \<rparr>"

definition qwen_request_of :: "env \<Rightarrow> string \<Rightarrow> string \<Rightarrow> http_request" where
  "qwen_request_of E promptContent title_arg =
     \<lparr> url = QWEN_ENDPOINT @ ''/chat/completions'',
       http_method = ''POST'',
       headers = [(''Content-Type'', ''application/json''),
                  (''Authorization'', ''Bearer '' @ QWEN_API_KEY E)],
       body = Some (JObj
         [(''model'', JStr QWEN_MODEL),
          (''messages'', JArr
             [JObj [(''role'', JStr ''system''), (''content'', JStr (systemPrompt E))],
              JObj [(''role'', JStr ''user''),
                    (''content'', JStr (userMessage title_arg promptContent))]]),
          (''response_format'', JObj [(''type'', JStr ''json_object'')])]) \<rparr>"

text \<open>\<open>response.text || "{}"\<close>: an absent or empty text gives the literal \<open>{}\<close>.\<close>

definition text_or_braces :: "string option \<Rightarrow> string" where
  "text_or_braces t = (case t of None \<Rightarrow> ''{}'' | Some s \<Rightarrow> if s = [] then ''{}'' else s)"

text \<open>\<open>data.choices[0].message.content\<close>: four property reads, each of which may throw.\<close>

definition qwen_content :: "json \<Rightarrow> js_error + jsval" where
  "qwen_content data =
     (case read_prop (Some data) ''choices'' of
        Inl e \<Rightarrow> Inl e
      | Inr choices \<Rightarrow>
          (case read_prop choices ''0'' of
             Inl e \<Rightarrow> Inl e
           | Inr choice \<Rightarrow>
               (case read_prop choice ''message'' of
                  Inl e \<Rightarrow> Inl e
                | Inr msg \<Rightarrow> read_prop msg ''content'')))"

definition analyzePrompt :: "env \<Rightarrow> AIModel \<Rightarrow> string \<Rightarrow> string \<Rightarrow> (js_error + json) \<times> call list" where
  "analyzePrompt E model promptContent title_arg =
     (case model of
        GEMINI \<Rightarrow>
          (let rq = gemini_request_of E promptContent title_arg
           in ((case generateContent E rq of
                  Inl e \<Rightarrow> Inl e
                | Inr t \<Rightarrow> JSON_parse E (Some (JStr (text_or_braces t)))),
               [GenerateContent rq]))
      | QWEN \<Rightarrow>
          (let rq = qwen_request_of E promptContent title_arg
           in ((case fetch E rq of
                  Inl e \<Rightarrow> Inl e
                | Inr res \<Rightarrow>
                    if \<not> ok res then Inl (JsError ''Error'' ''Qwen API failed'')
                    else (case res_json res of
                            Inl e \<Rightarrow> Inl e
                          | Inr data \<Rightarrow>
                              (case qwen_content data of
                                 Inl e \<Rightarrow> Inl e
                               | Inr c \<Rightarrow> JSON_parse E c))),
               [Fetch rq])))"

section \<open>The version increment of \<open>handleSave\<close>\<close>

text \<open>
  \<^verbatim>\<open>const nextVersion = (ver: string) => {
    const num = parseInt(ver.replace('v', '').split('.')[0]);
    return `v${(isNaN(num) ? 0 : num) + 1}.0`;
  };\<close>
\<close>

definition major_component :: "string \<Rightarrow> string" where
  "major_component ver = string_of_arg (first_elem (split (CHR ''.'') (replace_first (CHR ''v'') ver)))"

definition nextVersion :: "string \<Rightarrow> string" where
  "nextVersion ver =
     (let num = parseInt (major_component ver)
      in ''v'' @ number_to_string (plus_one (if isNaN num then Fin 0 else num)) @ ''.0'')"

section \<open>The application state (\<open>App.tsx\<close>)\<close>

text \<open>
  The notices of the program are fixed texts, most of them not ASCII; each is a
  constructor here. \<open>Message m\<close> is the text \<open>m\<close> of an exception, \<open>SaveSucceeded v\<close> the
  success notice that ends with the version \<open>v\<close> of the saved record.
\<close>

datatype toast_text =
    FillTitleAndContent
  | AnalysisFailedDefault
  | Message string
  | SaveSucceeded string
  | SaveFailed
  | DbReadFailed

datatype toast_type = success | error

text \<open>
  The \<open>useState\<close> cells of \<open>App\<close>. \<open>aiResult\<close> is typed \<open>AIAnalysisResult | null\<close>; it
  holds what \<open>JSON.parse\<close> returned, \<open>JNull\<close> for \<open>null\<close>. \<open>selectedPromptId\<close> is
  \<open>number | null\<close>.
\<close>

record state =
  viewMode :: ViewMode
  prompts :: "PromptRecord list"
  selectedPromptId :: "int option"
  currentPrompt :: PromptRecord
  aiModel :: AIModel
  aiConnected :: bool
  isAnalyzing :: bool
  aiResult :: json
  dbConnected :: bool
  isLoadingPrompts :: bool
  searchTerm :: string
  toast :: "(toast_text \<times> toast_type) option"
  showSqlModal :: bool

definition empty_prompt :: PromptRecord where
  "empty_prompt =
     \<lparr> id' = None, title = [], summary = [], content = [], excontext = Some [],
       version = ''v1.0'', created_at = None \<rparr>"

definition initial_state :: state where
  "initial_state =
     \<lparr> viewMode = LIST, prompts = [], selectedPromptId = None, currentPrompt = empty_prompt,
       aiModel = GEMINI, aiConnected = False, isAnalyzing = False, aiResult = JNull,
       dbConnected = False, isLoadingPrompts = False, searchTerm = [], toast = None,
       showSqlModal = False \<rparr>"

definition showToast :: "toast_text \<Rightarrow> toast_type \<Rightarrow> state \<Rightarrow> state" where
  "showToast m t st = st\<lparr>toast := Some (m, t)\<rparr>"

text \<open>
  \<^verbatim>\<open>const fetchPrompts = async () => {
    setIsLoadingPrompts(true);
    try { const data = await DbService.getAllPrompts(); setPrompts(data || []); }
    catch (error) { showToast(..., 'error'); }
    finally { setIsLoadingPrompts(false); }
  };\<close>
\<close>

definition fetchPrompts :: "env \<Rightarrow> state \<Rightarrow> state" where
  "fetchPrompts E st =
     (let st1 = st\<lparr>isLoadingPrompts := True\<rparr>;
          st2 = (case getAllPrompts E of
                   Inr data \<Rightarrow> st1\<lparr>prompts := (case data of None \<Rightarrow> [] | Some ps \<Rightarrow> ps)\<rparr>
                 | Inl e \<Rightarrow> showToast DbReadFailed error st1)
      in st2\<lparr>isLoadingPrompts := False\<rparr>)"

definition handleCreateNew :: "state \<Rightarrow> state" where
  "handleCreateNew st =
     st\<lparr>currentPrompt := empty_prompt, selectedPromptId := None, aiResult := JNull,
        viewMode := EDIT\<rparr>"

definition handleEdit :: "PromptRecord \<Rightarrow> state \<Rightarrow> state" where
  "handleEdit prompt st =
     st\<lparr>currentPrompt := prompt, selectedPromptId := id' prompt, aiResult := JNull,
        viewMode := EDIT\<rparr>"

text \<open>
  \<^verbatim>\<open>setCurrentPrompt(prev => ({...prev,
    content: prev.content + (prev.content ? '\n' : '') + content}))\<close>
\<close>

definition insertTemplate :: "string \<Rightarrow> state \<Rightarrow> state" where
  "insertTemplate c st =
     (let prev = currentPrompt st
      in st\<lparr>currentPrompt :=
              prev\<lparr>content := content prev @ (if content prev \<noteq> [] then newline else []) @ c\<rparr>\<rparr>)"

subsection \<open>\<open>handleAiAnalyze\<close>\<close>

text \<open>
  \<^verbatim>\<open>const handleAiAnalyze = async () => {
    if (!currentPrompt.title || !currentPrompt.content) {
      showToast(..., 'error');
      return;
    }
    setIsAnalyzing(true);
    try {
      const result = await AiService.analyzePrompt(aiModel, currentPrompt.content,
                                                   currentPrompt.title);
      setAiResult(result);
      setViewMode(ViewMode.PREVIEW);
    } catch (e: any) {
      console.error(e);
      showToast(e.message || ..., 'error');
    } finally {
      setIsAnalyzing(false);
    }
  };\<close>
  The handler runs in two parts, before and after the \<open>await\<close>. \<open>analyze_begin\<close> is the
  first: the guard, the flag, and the arguments of the call if one is made.
  \<open>analyze_settled\<close> is the second, given how the call ended. \<open>handleAiAnalyze\<close> runs both
  with nothing in between.
\<close>

definition analyze_guard :: "state \<Rightarrow> bool" where
  "analyze_guard st = (title (currentPrompt st) = [] \<or> content (currentPrompt st) = [])"

definition analyze_begin :: "state \<Rightarrow> state \<times> (AIModel \<times> string \<times> string) option" where
  "analyze_begin st =
     (if analyze_guard st then (showToast FillTitleAndContent error st, None)
      else (st\<lparr>isAnalyzing := True\<rparr>,
            Some (aiModel st, content (currentPrompt st), title (currentPrompt st))))"

definition analyze_settled :: "js_error + json \<Rightarrow> state \<Rightarrow> state" where
  "analyze_settled r st =
     (case r of
        Inr result \<Rightarrow> st\<lparr>aiResult := result, viewMode := PREVIEW\<rparr>
      | Inl e \<Rightarrow> showToast (if message e = [] then AnalysisFailedDefault else Message (message e)) error st)
     \<lparr>isAnalyzing := False\<rparr>"

definition handleAiAnalyze :: "env \<Rightarrow> state \<Rightarrow> state \<times> call list" where
  "handleAiAnalyze E st =
     (case analyze_begin st of
        (st1, None) \<Rightarrow> (st1, [])
      | (st1, Some (model, promptContent, title_arg)) \<Rightarrow>
          (let (r, calls) = analyzePrompt E model promptContent title_arg
           in (analyze_settled r st1, calls)))"

subsection \<open>\<open>handleSave\<close>\<close>

text \<open>
  \<^verbatim>\<open>const handleSave = async () => {
    try {
      let savedRecord: PromptRecord;
      const nextVersion = ...;
      const payloadBase = {
        ...currentPrompt,
        excontext: currentPrompt.content,
        content: aiResult ? aiResult.optimizedPrompt : currentPrompt.content
      };
      if (selectedPromptId) {
        const newVersion = nextVersion(currentPrompt.version);
        savedRecord = await DbService.updatePrompt(selectedPromptId,
                                                   { ...payloadBase, version: newVersion });
      } else {
        savedRecord = await DbService.createPrompt({ ...payloadBase, version: 'v1.0' });
      }
      showToast(`... ${savedRecord.version}`, 'success');
      setViewMode(ViewMode.LIST);
      fetchPrompts();
    } catch (e) {
      console.error(e);
      showToast(..., 'error');
    }
  };\<close>
  \<open>aiResult.optimizedPrompt\<close> is read only when \<open>aiResult\<close> is true, so the read does not
  throw. \<open>if (selectedPromptId)\<close> tests the number: \<open>null\<close> and \<open>0\<close> are false.
\<close>

definition optimizedPrompt :: "json \<Rightarrow> jsval" where
  "optimizedPrompt r = (case read_prop (Some r) ''optimizedPrompt'' of Inl e \<Rightarrow> None | Inr v \<Rightarrow> v)"

definition payloadBase :: "state \<Rightarrow> save_payload" where
  "payloadBase st =
     (let cp = currentPrompt st
      in \<lparr> id' = id' cp, title = title cp, summary = summary cp,
           content = (if truthy (aiResult st) then optimizedPrompt (aiResult st)
                      else Some (JStr (content cp))),
           excontext = Some (content cp),
           version = version cp, created_at = created_at cp \<rparr>)"

definition save_call :: "state \<Rightarrow> db_call" where
  "save_call st =
     (let create = CreatePrompt ((payloadBase st)\<lparr>version := ''v1.0''\<rparr>)
      in case selectedPromptId st of
           None \<Rightarrow> create
         | Some i \<Rightarrow>
             if i \<noteq> 0
             then UpdatePrompt i ((payloadBase st)\<lparr>version := nextVersion (version (currentPrompt st))\<rparr>)
             else create)"

text \<open>What the storage service answers, and the record a call asks it to persist.\<close>

definition storage_answer :: "env \<Rightarrow> db_call \<Rightarrow> js_error + PromptRecord" where
  "storage_answer E c =
     (case c of
        UpdatePrompt i p \<Rightarrow> updatePrompt E i p
      | CreatePrompt p \<Rightarrow> createPrompt E p)"

definition persisted :: "db_call \<Rightarrow> save_payload" where
  "persisted c = (case c of UpdatePrompt i p \<Rightarrow> p | CreatePrompt p \<Rightarrow> p)"

definition handleSave :: "env \<Rightarrow> state \<Rightarrow> state \<times> call list" where
  "handleSave E st =
     (case storage_answer E (save_call st) of
        Inr savedRecord \<Rightarrow>
          (fetchPrompts E
             ((showToast (SaveSucceeded (version savedRecord)) success st)\<lparr>viewMode := LIST\<rparr>),
           [Db (save_call st), GetAllPrompts])
      | Inl e \<Rightarrow> (showToast SaveFailed error st, [Db (save_call st)]))"

subsection \<open>The preview\<close>

text \<open>
  The text area of the preview shows and edits
  \<open>aiResult ? aiResult.optimizedPrompt : currentPrompt.content\<close>:
  \<^verbatim>\<open>onChange={(e) => {
    const newVal = e.target.value;
    if (aiResult) { setAiResult({ ...aiResult, optimizedPrompt: newVal }); }
    else { setCurrentPrompt({ ...currentPrompt, content: newVal }); }
  }}\<close>
  The revert button is \<open>onClick={() => setAiResult(null)}\<close>.
\<close>

definition edit_target :: "state \<Rightarrow> jsval" where
  "edit_target st =
     (if truthy (aiResult st) then optimizedPrompt (aiResult st)
      else Some (JStr (content (currentPrompt st))))"

definition edit_preview :: "string \<Rightarrow> state \<Rightarrow> state" where
  "edit_preview newVal st =
     (if truthy (aiResult st)
      then st\<lparr>aiResult := JObj (set_prop ''optimizedPrompt'' (JStr newVal) (spread (aiResult st)))\<rparr>
      else st\<lparr>currentPrompt := (currentPrompt st)\<lparr>content := newVal\<rparr>\<rparr>)"

definition revert :: "state \<Rightarrow> state" where
  "revert st = st\<lparr>aiResult := JNull\<rparr>"

text \<open>
  The side panel of the change log is rendered under
  \<open>viewMode === ViewMode.PREVIEW && aiResult && aiResult.changeLog.length > 0\<close>.
  \<open>changeLog_length\<close> is the read \<open>aiResult.changeLog.length\<close> of that test: \<open>None\<close> when
  the conjunction stops before it, otherwise the value read or the exception thrown while
  \<open>App\<close> renders.
\<close>

definition changeLog_length :: "state \<Rightarrow> (js_error + jsval) option" where
  "changeLog_length st =
     (if viewMode st = PREVIEW \<and> truthy (aiResult st)
      then Some (case read_prop (Some (aiResult st)) ''changeLog'' of
                   Inl e \<Rightarrow> Inl e
                 | Inr c \<Rightarrow> read_prop c ''length'')
      else None)"

subsection \<open>The analysis trigger and the analyzing flag\<close>

text \<open>
  Between the two parts of \<open>handleAiAnalyze\<close> the page stays live. An \<open>app\<close> is the
  state together with the \<open>analyzePrompt\<close> calls that have been sent and have not settled
  (model, content, title). The events are those of the analysis workflow; the list view's
  search, edit and delete, the save button, the model selector and the connection checks
  are left out.

  The side bar:
  \<^verbatim>\<open><button onClick={() => setViewMode(ViewMode.LIST)}>
  <button onClick={() => {
      if (viewMode !== ViewMode.EDIT && !selectedPromptId) handleCreateNew();
      else setViewMode(ViewMode.EDIT); }}>
  <button onClick={() => setViewMode(ViewMode.PREVIEW)} disabled={!currentPrompt.content}>\<close>
  The edit view (rendered when \<open>viewMode === ViewMode.EDIT\<close>):
  \<^verbatim>\<open><button onClick={() => setViewMode(ViewMode.LIST)}>
  <input value={currentPrompt.title}
         onChange={(e) => setCurrentPrompt({...currentPrompt, title: e.target.value})}/>
  <textarea value={currentPrompt.content}
         onChange={(e) => setCurrentPrompt({...currentPrompt, content: e.target.value})}/>
  <button onClick={handleAiAnalyze} disabled={isAnalyzing}>\<close>
  The preview (rendered when \<open>viewMode === ViewMode.PREVIEW\<close>):
  \<^verbatim>\<open><button onClick={() => setViewMode(ViewMode.EDIT)}>
  {aiResult && (<button onClick={() => setAiResult(null)}>)}
  <button onClick={handleAiAnalyze}>
  <textarea value={...} onChange={...}/>\<close>
  and the list view's \<open><button onClick={handleCreateNew}>\<close>.
\<close>

record app =
  ui :: state
  pending :: "(AIModel \<times> string \<times> string) list"

datatype event =
    NavList
  | NavEdit
  | NavPreview
  | ClickCreateNew
  | BackFromEdit
  | TypeTitle string
  | TypeContent string
  | ClickAnalyze
  | BackFromPreview
  | ClickRevert
  | ClickReanalyze
  | TypePreview string
  | AnalysisSettles nat "js_error + json"

text \<open>Whether the control of an event is on the page and enabled.\<close>

fun offered :: "app \<Rightarrow> event \<Rightarrow> bool" where
  "offered a NavList = True"
| "offered a NavEdit = True"
| "offered a NavPreview = (content (currentPrompt (ui a)) \<noteq> [])"
| "offered a ClickCreateNew = (viewMode (ui a) = LIST)"
| "offered a BackFromEdit = (viewMode (ui a) = EDIT)"
| "offered a (TypeTitle t) = (viewMode (ui a) = EDIT)"
| "offered a (TypeContent c) = (viewMode (ui a) = EDIT)"
| "offered a ClickAnalyze = (viewMode (ui a) = EDIT \<and> \<not> isAnalyzing (ui a))"
| "offered a BackFromPreview = (viewMode (ui a) = PREVIEW)"
| "offered a ClickRevert = (viewMode (ui a) = PREVIEW \<and> truthy (aiResult (ui a)))"
| "offered a ClickReanalyze = (viewMode (ui a) = PREVIEW)"
| "offered a (TypePreview t) = (viewMode (ui a) = PREVIEW)"
| "offered a (AnalysisSettles i r) = (i < length (pending a))"

definition trigger_analysis :: "app \<Rightarrow> app" where
  "trigger_analysis a =
     (case analyze_begin (ui a) of
        (st1, None) \<Rightarrow> a\<lparr>ui := st1\<rparr>
      | (st1, Some args) \<Rightarrow> a\<lparr>ui := st1, pending := pending a @ [args]\<rparr>)"

definition id_is_set :: "int option \<Rightarrow> bool" where
  "id_is_set i = (case i of None \<Rightarrow> False | Some n \<Rightarrow> n \<noteq> 0)"

fun fire :: "event \<Rightarrow> app \<Rightarrow> app" where
  "fire NavList a = a\<lparr>ui := (ui a)\<lparr>viewMode := LIST\<rparr>\<rparr>"
| "fire NavEdit a =
     (if viewMode (ui a) \<noteq> EDIT \<and> \<not> id_is_set (selectedPromptId (ui a))
      then a\<lparr>ui := handleCreateNew (ui a)\<rparr>
      else a\<lparr>ui := (ui a)\<lparr>viewMode := EDIT\<rparr>\<rparr>)"
| "fire NavPreview a = a\<lparr>ui := (ui a)\<lparr>viewMode := PREVIEW\<rparr>\<rparr>"
| "fire ClickCreateNew a = a\<lparr>ui := handleCreateNew (ui a)\<rparr>"
| "fire BackFromEdit a = a\<lparr>ui := (ui a)\<lparr>viewMode := LIST\<rparr>\<rparr>"
| "fire (TypeTitle t) a = a\<lparr>ui := (ui a)\<lparr>currentPrompt := (currentPrompt (ui a))\<lparr>title := t\<rparr>\<rparr>\<rparr>"
| "fire (TypeContent c) a = a\<lparr>ui := (ui a)\<lparr>currentPrompt := (currentPrompt (ui a))\<lparr>content := c\<rparr>\<rparr>\<rparr>"
| "fire ClickAnalyze a = trigger_analysis a"
| "fire BackFromPreview a = a\<lparr>ui := (ui a)\<lparr>viewMode := EDIT\<rparr>\<rparr>"
| "fire ClickRevert a = a\<lparr>ui := revert (ui a)\<rparr>"
| "fire ClickReanalyze a = trigger_analysis a"
| "fire (TypePreview t) a = a\<lparr>ui := edit_preview t (ui a)\<rparr>"
| "fire (AnalysisSettles i r) a =
     a\<lparr>ui := analyze_settled r (ui a), pending := take i (pending a) @ drop (Suc i) (pending a)\<rparr>"

text \<open>A run of events from a state: \<open>None\<close> when one of them is not offered.\<close>

fun run :: "event list \<Rightarrow> app \<Rightarrow> app option" where
  "run [] a = Some a"
| "run (e # es) a = (if offered a e then run es (fire e a) else None)"

definition initial_app :: app where
  "initial_app = \<lparr> ui = initial_state, pending = [] \<rparr>"

text \<open>
  What the flag is for: it is set exactly while a request is in flight, and at most one
  is.
\<close>

definition one_at_most :: "app \<Rightarrow> bool" where
  "one_at_most a = ((isAnalyzing (ui a) \<longleftrightarrow> pending a \<noteq> []) \<and> length (pending a) \<le> 1)"

section \<open>Notions of the specification\<close>


section \<open>Example inputs\<close>

text \<open>
  A Draft with a title, a content and a version, and the state that holds it in a given
  view, for a given selected id (the id of the Draft) and a given result of the analysis.
\<close>

definition draft :: "string \<Rightarrow> string \<Rightarrow> string \<Rightarrow> PromptRecord" where
  "draft t c v = empty_prompt\<lparr>title := t, content := c, version := v\<rparr>"

definition state_with :: "ViewMode \<Rightarrow> int option \<Rightarrow> PromptRecord \<Rightarrow> json \<Rightarrow> state" where
  "state_with m i d r =
     initial_state\<lparr>viewMode := m, selectedPromptId := i, currentPrompt := d\<lparr>id' := i\<rparr>,
                   aiResult := r\<rparr>"

text \<open>
  An environment in which every collaborator fails, and variations of it: a Gemini
  response with the given text, a text that \<open>JSON.parse\<close> reads as the given value, and a
  Qwen response with the given status.
\<close>

definition failure :: js_error where
  "failure = JsError ''TypeError'' ''Failed to fetch''"

definition offline :: env where
  "offline =
     \<lparr> process_env_API_KEY = None, QWEN_API_KEY = [], systemPrompt = [],
       fetch = (\<lambda>rq. Inl failure),
       generateContent = (\<lambda>rq. Inl failure),
       JSON_parse = (\<lambda>v. Inl (JsError ''SyntaxError'' ''Unexpected token'')),
       createPrompt = (\<lambda>p. Inl failure),
       updatePrompt = (\<lambda>i p. Inl failure),
       getAllPrompts = Inl failure \<rparr>"

definition gemini_answers :: "string option \<Rightarrow> env \<Rightarrow> env" where
  "gemini_answers t E = E\<lparr>generateContent := (\<lambda>rq. Inr t)\<rparr>"

definition parses :: "string \<Rightarrow> json \<Rightarrow> env \<Rightarrow> env" where
  "parses s v E = E\<lparr>JSON_parse := (\<lambda>x. if x = Some (JStr s) then Inr v else JSON_parse E x)\<rparr>"

definition qwen_answers :: "bool \<Rightarrow> js_error + json \<Rightarrow> env \<Rightarrow> env" where
  "qwen_answers status b E = E\<lparr>fetch := (\<lambda>rq. Inr \<lparr> ok = status, res_json = b \<rparr>)\<rparr>"

text \<open>A storage service that accepts every save and answers with the given record.\<close>

definition storage_saves :: "PromptRecord \<Rightarrow> env \<Rightarrow> env" where
  "storage_saves r E = E\<lparr>createPrompt := (\<lambda>p. Inr r), updatePrompt := (\<lambda>i p. Inr r)\<rparr>"

text \<open>A body of Qwen whose first choice has the given content.\<close>

definition qwen_body :: "json \<Rightarrow> json" where
  "qwen_body c = JObj [(''choices'', JArr [JObj [(''message'', JObj [(''content'', c)])]])]"

text \<open>
  The page after: new prompt, title \<open>A\<close>, content \<open>do X\<close>, the analysis button of the
  edit view, and the side bar's preview button while the analysis is in flight.
\<close>

definition busy_preview :: app where
  "busy_preview =
     \<lparr> ui = initial_state\<lparr>viewMode := PREVIEW, currentPrompt := draft ''A'' ''do X'' ''v1.0'',
                           isAnalyzing := True\<rparr>,
       pending = [(GEMINI, ''do X'', ''A'')] \<rparr>"

section \<open>Facts about the JavaScript values\<close>























section \<open>Facts about the handlers\<close>



lemma handleSave_sends: "\<exists>cs. snd (handleSave E st) = Db (save_call st) # cs"
  by (simp add: handleSave_def split: sum.splits)

lemma persisted_save_call:
  "content (persisted (save_call st)) = content (payloadBase st)"
  "excontext (persisted (save_call st)) = excontext (payloadBase st)"
  by (simp_all add: save_call_def persisted_def Let_def split: option.splits)

lemma handleAiAnalyze_guarded:
  "analyze_guard st \<Longrightarrow> handleAiAnalyze E st = (st\<lparr>toast := Some (FillTitleAndContent, error)\<rparr>, [])"
  by (simp add: handleAiAnalyze_def analyze_begin_def showToast_def)

lemma handleAiAnalyze_calls:
  "\<not> analyze_guard st \<Longrightarrow>
   snd (handleAiAnalyze E st) =
     snd (analyzePrompt E (aiModel st) (content (currentPrompt st)) (title (currentPrompt st)))"
  by (simp add: handleAiAnalyze_def analyze_begin_def split: prod.splits)

lemma analyzePrompt_calls:
  "snd (analyzePrompt E model c t) =
     [case model of
        GEMINI \<Rightarrow> GenerateContent (gemini_request_of E c t)
      | QWEN \<Rightarrow> Fetch (qwen_request_of E c t)]"
  by (cases model) (simp_all add: analyzePrompt_def Let_def)

lemma handleAiAnalyze_unguarded:
  "\<not> analyze_guard st \<Longrightarrow>
   handleAiAnalyze E st =
     (analyze_settled
        (fst (analyzePrompt E (aiModel st) (content (currentPrompt st)) (title (currentPrompt st))))
        (st\<lparr>isAnalyzing := True\<rparr>),
      snd (analyzePrompt E (aiModel st) (content (currentPrompt st)) (title (currentPrompt st))))"
  by (simp add: handleAiAnalyze_def analyze_begin_def case_prod_beta)

lemma handleAiAnalyze_succeeded:
  assumes "\<not> analyze_guard st"
    and "fst (analyzePrompt E (aiModel st) (content (currentPrompt st)) (title (currentPrompt st))) = Inr r"
  shows "fst (handleAiAnalyze E st) = st\<lparr>aiResult := r, viewMode := PREVIEW, isAnalyzing := False\<rparr>"
  using assms
  by (simp add: handleAiAnalyze_unguarded analyze_settled_def)

lemma analyze_guard_aiResult [simp]:
  "analyze_guard (st\<lparr>aiResult := r\<rparr>) = analyze_guard st"
  "analyze_guard (st\<lparr>viewMode := m\<rparr>) = analyze_guard st"
  by (simp_all add: analyze_guard_def)

lemma trigger_analysis_unguarded:
  "\<not> analyze_guard (ui a) \<Longrightarrow>
   trigger_analysis a =
     a\<lparr>ui := (ui a)\<lparr>isAnalyzing := True\<rparr>,
       pending := pending a @ [(aiModel (ui a), content (currentPrompt (ui a)),
                                title (currentPrompt (ui a)))]\<rparr>"
  by (simp add: trigger_analysis_def analyze_begin_def)

text \<open>
  With the trigger of the edit view alone the flag does its work: every event but the
  re-analysis of the preview keeps \<open>one_at_most\<close>, by induction along a run.
\<close>

lemma one_at_most_fire:
  assumes "one_at_most a" and "offered a e" and "e \<noteq> ClickReanalyze"
  shows "one_at_most (fire e a)"
proof (cases e)
  case ClickAnalyze
  with assms have "pending a = []" by (simp add: one_at_most_def)
  with assms ClickAnalyze show ?thesis
    by (simp add: one_at_most_def trigger_analysis_def analyze_begin_def showToast_def)
next
  case (AnalysisSettles i r)
  with assms have "i = 0" "length (pending a) = 1" by (auto simp: one_at_most_def)
  with AnalysisSettles show ?thesis
    by (cases r) (simp_all add: one_at_most_def analyze_settled_def showToast_def)
qed (insert assms, auto simp: one_at_most_def handleCreateNew_def revert_def edit_preview_def)

lemma one_at_most_run:
  assumes "run es a = Some b" and "one_at_most a" and "ClickReanalyze \<notin> set es"
  shows "one_at_most b"
  using assms
proof (induction es arbitrary: a)
  case Nil
  then show ?case by simp
next
  case (Cons e es)
  from Cons.prems have o: "offered a e" and r: "run es (fire e a) = Some b"
    by (auto split: if_splits)
  from Cons.prems o have "one_at_most (fire e a)"
    by (intro one_at_most_fire) auto
  with Cons.IH r Cons.prems show ?case by simp
qed

lemma one_at_most_initial: "one_at_most initial_app"
  by (simp add: one_at_most_def initial_app_def initial_state_def)

section \<open>C1: the version a save persists\<close>




section \<open>C2: the content and the raw context a save persists\<close>

text \<open>
  C2. In the record \<open>handleSave\<close> asks the storage service to persist, \<open>excontext\<close> is the
  Draft's content as the state holds it when the save runs. \<open>content\<close> is
  \<open>aiResult.optimizedPrompt\<close> when \<open>aiResult\<close> is true, which every object is (the read
  does not throw then): for an object it is the value of its property \<open>optimizedPrompt\<close>. When there is no result
  (\<open>null\<close>) \<open>content\<close> is the Draft's content. So \<open>excontext\<close> is the optimized text only
  if the Draft's content is that same text.
\<close>

theorem C2_content_and_raw_context:
  "(\<exists>cs. snd (handleSave E st) = Db (save_call st) # cs)
   \<and> excontext (persisted (save_call st)) = Some (content (currentPrompt st))
   \<and> (truthy (aiResult st)
        \<longrightarrow> content (persisted (save_call st)) = optimizedPrompt (aiResult st)
          \<and> read_prop (Some (aiResult st)) ''optimizedPrompt''
              = Inr (content (persisted (save_call st))))
   \<and> (aiResult st = JObj kvs
        \<longrightarrow> content (persisted (save_call st)) = map_of kvs ''optimizedPrompt'')
   \<and> (\<not> truthy (aiResult st)
        \<longrightarrow> content (persisted (save_call st)) = Some (JStr (content (currentPrompt st))))
   \<and> (aiResult st = JNull
        \<longrightarrow> content (persisted (save_call st)) = Some (JStr (content (currentPrompt st))))
   \<and> (optimizedPrompt (aiResult st) = Some (JStr t) \<and> excontext (persisted (save_call st)) = Some t
        \<longrightarrow> content (currentPrompt st) = t)"
proof (intro conjI impI)
  show "\<exists>cs. snd (handleSave E st) = Db (save_call st) # cs"
    by (rule handleSave_sends)
  show "excontext (persisted (save_call st)) = Some (content (currentPrompt st))"
    by (simp add: persisted_save_call payloadBase_def Let_def)
  then show "content (currentPrompt st) = t"
    if "optimizedPrompt (aiResult st) = Some (JStr t) \<and> excontext (persisted (save_call st)) = Some t"
    using that by simp
  show c: "content (persisted (save_call st)) = optimizedPrompt (aiResult st)"
    if "truthy (aiResult st)"
    using that by (simp add: persisted_save_call payloadBase_def Let_def)
  show "read_prop (Some (aiResult st)) ''optimizedPrompt'' = Inr (content (persisted (save_call st)))"
    if "truthy (aiResult st)"
    using that c by (cases "aiResult st") (simp_all add: optimizedPrompt_def read_prop_def)
  show "content (persisted (save_call st)) = map_of kvs ''optimizedPrompt''"
    if "aiResult st = JObj kvs"
    using that
    by (simp add: persisted_save_call payloadBase_def Let_def optimizedPrompt_def read_prop_def)
  show "content (persisted (save_call st)) = Some (JStr (content (currentPrompt st)))"
    if "\<not> truthy (aiResult st)"
    using that by (simp add: persisted_save_call payloadBase_def Let_def)
  show "content (persisted (save_call st)) = Some (JStr (content (currentPrompt st)))"
    if "aiResult st = JNull"
    using that by (simp add: persisted_save_call payloadBase_def Let_def)
qed

text \<open>
  The stored record 7 at \<open>v3.0\<close>, Draft content \<open>do X\<close>, analysed into
  \<open>do X, improved\<close>: the save persists the improved text as content and \<open>do X\<close> as raw
  context. Without a result, the save persists \<open>do X\<close> as both.
\<close>

theorem C2_content_and_raw_context_witness:
  "aiResult (state_with PREVIEW (Some 7) (draft ''A'' ''do X'' ''v3.0'')
       (JObj [(''optimizedPrompt'', JStr ''do X, improved''), (''changeLog'', JArr [])]))
     = JObj [(''optimizedPrompt'', JStr ''do X, improved''), (''changeLog'', JArr [])]
   \<and> truthy (JObj [(''optimizedPrompt'', JStr ''do X, improved''), (''changeLog'', JArr [])])
   \<and> content (persisted (save_call (state_with PREVIEW (Some 7) (draft ''A'' ''do X'' ''v3.0'')
       (JObj [(''optimizedPrompt'', JStr ''do X, improved''), (''changeLog'', JArr [])]))))
     = Some (JStr ''do X, improved'')
   \<and> excontext (persisted (save_call (state_with PREVIEW (Some 7) (draft ''A'' ''do X'' ''v3.0'')
       (JObj [(''optimizedPrompt'', JStr ''do X, improved''), (''changeLog'', JArr [])]))))
     = Some ''do X''
   \<and> aiResult (state_with PREVIEW (Some 7) (draft ''A'' ''do X'' ''v3.0'') JNull) = JNull
   \<and> \<not> truthy JNull
   \<and> content (persisted (save_call (state_with PREVIEW (Some 7) (draft ''A'' ''do X'' ''v3.0'') JNull)))
     = Some (JStr ''do X'')
   \<and> excontext (persisted (save_call (state_with PREVIEW (Some 7) (draft ''A'' ''do X'' ''v3.0'') JNull)))
     = Some ''do X''"
proof -
  let ?r = "JObj [(''optimizedPrompt'', JStr ''do X, improved''), (''changeLog'', JArr [])]"
  let ?st = "state_with PREVIEW (Some 7) (draft ''A'' ''do X'' ''v3.0'') ?r"
  let ?raw = "state_with PREVIEW (Some 7) (draft ''A'' ''do X'' ''v3.0'') JNull"
  have r: "aiResult ?st = ?r" "aiResult ?raw = JNull"
    and c: "content (currentPrompt ?st) = ''do X''" "content (currentPrompt ?raw) = ''do X''"
    by (simp_all add: state_with_def draft_def)
  note analysed = C2_content_and_raw_context
         [where E = offline and st = ?st
            and kvs = "[(''optimizedPrompt'', JStr ''do X, improved''), (''changeLog'', JArr [])]"]
  note plain = C2_content_and_raw_context [where E = offline and st = ?raw]
  have "content (persisted (save_call ?st)) = Some (JStr ''do X, improved'')"
    using analysed [THEN conjunct2, THEN conjunct2, THEN conjunct2, THEN conjunct1] r(1)
    by simp
  moreover have "excontext (persisted (save_call ?st)) = Some ''do X''"
    using analysed [THEN conjunct2, THEN conjunct1] c(1) by simp
  moreover have "content (persisted (save_call ?raw)) = Some (JStr ''do X'')"
    using plain [THEN conjunct2, THEN conjunct2, THEN conjunct2, THEN conjunct2, THEN conjunct2,
        THEN conjunct1] r(2) c(2)
    by simp
  moreover have "excontext (persisted (save_call ?raw)) = Some ''do X''"
    using plain [THEN conjunct2, THEN conjunct1] c(2) by simp
  ultimately show ?thesis using r by simp
qed

section \<open>C9: a save the storage service refuses\<close>

text \<open>
  C9. When the create or update call of \<open>handleSave\<close> fails, the state is left as it was
  but for the notice of the failure: the view mode (the save button is on the preview),
  the Draft, the result of the analysis and the selected id are unchanged, and nothing is
  sent after the failed call.
\<close>

theorem C9_save_failure:
  "storage_answer E (save_call st) = Inl e \<longrightarrow>
     fst (handleSave E st) = st\<lparr>toast := Some (SaveFailed, error)\<rparr>
     \<and> toast (fst (handleSave E st)) = Some (SaveFailed, error)
     \<and> viewMode (fst (handleSave E st)) = viewMode st
     \<and> currentPrompt (fst (handleSave E st)) = currentPrompt st
     \<and> aiResult (fst (handleSave E st)) = aiResult st
     \<and> selectedPromptId (fst (handleSave E st)) = selectedPromptId st
     \<and> snd (handleSave E st) = [Db (save_call st)]"
  by (simp add: handleSave_def showToast_def)

text \<open>
  With the storage service out of reach, saving the analysed Draft from the preview leaves
  the preview, the Draft and the result in place.
\<close>

theorem C9_save_failure_witness:
  "storage_answer offline (save_call (state_with PREVIEW (Some 7) (draft ''A'' ''do X'' ''v3.0'')
       (JObj [(''optimizedPrompt'', JStr ''do X, improved'')]))) = Inl failure
   \<and> toast (fst (handleSave offline (state_with PREVIEW (Some 7) (draft ''A'' ''do X'' ''v3.0'')
       (JObj [(''optimizedPrompt'', JStr ''do X, improved'')])))) = Some (SaveFailed, error)
   \<and> viewMode (fst (handleSave offline (state_with PREVIEW (Some 7) (draft ''A'' ''do X'' ''v3.0'')
       (JObj [(''optimizedPrompt'', JStr ''do X, improved'')])))) = PREVIEW
   \<and> currentPrompt (fst (handleSave offline (state_with PREVIEW (Some 7)
       (draft ''A'' ''do X'' ''v3.0'') (JObj [(''optimizedPrompt'', JStr ''do X, improved'')]))))
     = (draft ''A'' ''do X'' ''v3.0'')\<lparr>id' := Some 7\<rparr>
   \<and> aiResult (fst (handleSave offline (state_with PREVIEW (Some 7) (draft ''A'' ''do X'' ''v3.0'')
       (JObj [(''optimizedPrompt'', JStr ''do X, improved'')]))))
     = JObj [(''optimizedPrompt'', JStr ''do X, improved'')]"
proof -
  let ?st = "state_with PREVIEW (Some 7) (draft ''A'' ''do X'' ''v3.0'')
       (JObj [(''optimizedPrompt'', JStr ''do X, improved'')])"
  have f: "storage_answer offline (save_call ?st) = Inl failure"
    by (simp add: storage_answer_def save_call_def state_with_def offline_def)
  have s: "viewMode ?st = PREVIEW" "currentPrompt ?st = (draft ''A'' ''do X'' ''v3.0'')\<lparr>id' := Some 7\<rparr>"
    "aiResult ?st = JObj [(''optimizedPrompt'', JStr ''do X, improved'')]"
    by (simp_all add: state_with_def)
  from C9_save_failure [of offline ?st failure] f s show ?thesis by simp
qed

section \<open>C5: the guard of the analysis\<close>

text \<open>
  C5. \<open>handleAiAnalyze\<close> is the handler of both triggers (the button of the edit view and
  the button of the preview). With an empty title or an empty content it sends nothing: it
  only puts up the validation notice, and \<open>isAnalyzing\<close> is not set at any point (the first
  part of the handler leaves the flag alone and there is no second part). With both
  non-empty it sets the flag and sends exactly one request.
\<close>

theorem C5_analysis_guard:
  "(title (currentPrompt st) = [] \<or> content (currentPrompt st) = []
      \<longrightarrow> handleAiAnalyze E st = (st\<lparr>toast := Some (FillTitleAndContent, error)\<rparr>, [])
          \<and> analyze_begin st = (st\<lparr>toast := Some (FillTitleAndContent, error)\<rparr>, None)
          \<and> isAnalyzing (fst (analyze_begin st)) = isAnalyzing st
          \<and> pending (trigger_analysis (a0\<lparr>ui := st\<rparr>)) = pending a0)
   \<and> (title (currentPrompt st) \<noteq> [] \<and> content (currentPrompt st) \<noteq> []
      \<longrightarrow> isAnalyzing (fst (analyze_begin st))
          \<and> snd (analyze_begin st)
              = Some (aiModel st, content (currentPrompt st), title (currentPrompt st))
          \<and> snd (handleAiAnalyze E st) =
              [case aiModel st of
                 GEMINI \<Rightarrow> GenerateContent
                   (gemini_request_of E (content (currentPrompt st)) (title (currentPrompt st)))
               | QWEN \<Rightarrow> Fetch
                   (qwen_request_of E (content (currentPrompt st)) (title (currentPrompt st)))])"
proof (intro conjI impI)
  assume g: "title (currentPrompt st) = [] \<or> content (currentPrompt st) = []"
  then have guard: "analyze_guard st" by (simp add: analyze_guard_def)
  then show "handleAiAnalyze E st = (st\<lparr>toast := Some (FillTitleAndContent, error)\<rparr>, [])"
    by (rule handleAiAnalyze_guarded)
  from guard show b: "analyze_begin st = (st\<lparr>toast := Some (FillTitleAndContent, error)\<rparr>, None)"
    by (simp add: analyze_begin_def showToast_def)
  then show "isAnalyzing (fst (analyze_begin st)) = isAnalyzing st" by simp
  from b show "pending (trigger_analysis (a0\<lparr>ui := st\<rparr>)) = pending a0"
    by (simp add: trigger_analysis_def)
next
  assume n: "title (currentPrompt st) \<noteq> [] \<and> content (currentPrompt st) \<noteq> []"
  then have guard: "\<not> analyze_guard st" by (simp add: analyze_guard_def)
  then show "isAnalyzing (fst (analyze_begin st))"
    and "snd (analyze_begin st)
           = Some (aiModel st, content (currentPrompt st), title (currentPrompt st))"
    by (simp_all add: analyze_begin_def)
  from guard show "snd (handleAiAnalyze E st) =
      [case aiModel st of
         GEMINI \<Rightarrow> GenerateContent
           (gemini_request_of E (content (currentPrompt st)) (title (currentPrompt st)))
       | QWEN \<Rightarrow> Fetch
           (qwen_request_of E (content (currentPrompt st)) (title (currentPrompt st)))]"
    by (simp add: handleAiAnalyze_calls analyzePrompt_calls)
qed

text \<open>
  A Draft with a title and no content sends nothing; the Draft \<open>A\<close>, \<open>do X\<close> sends the one
  Gemini request.
\<close>

theorem C5_analysis_guard_witness:
  "content (currentPrompt (state_with EDIT None (draft ''A'' [] ''v1.0'') JNull)) = []
   \<and> snd (handleAiAnalyze offline (state_with EDIT None (draft ''A'' [] ''v1.0'') JNull)) = []
   \<and> toast (fst (handleAiAnalyze offline (state_with EDIT None (draft ''A'' [] ''v1.0'') JNull)))
       = Some (FillTitleAndContent, error)
   \<and> isAnalyzing (fst (analyze_begin (state_with EDIT None (draft ''A'' [] ''v1.0'') JNull))) = False
   \<and> snd (handleAiAnalyze offline (state_with EDIT None (draft ''A'' ''do X'' ''v1.0'') JNull))
       = [GenerateContent (gemini_request_of offline ''do X'' ''A'')]"
proof -
  let ?e = "state_with EDIT None (draft ''A'' [] ''v1.0'') JNull"
  let ?f = "state_with EDIT None (draft ''A'' ''do X'' ''v1.0'') JNull"
  have e: "content (currentPrompt ?e) = []" "isAnalyzing ?e = False"
    and f: "title (currentPrompt ?f) = ''A''" "content (currentPrompt ?f) = ''do X''"
      "aiModel ?f = GEMINI"
    by (simp_all add: state_with_def draft_def initial_state_def)
  from C5_analysis_guard [of ?e offline initial_app] e
  have "snd (handleAiAnalyze offline ?e) = []"
    and "toast (fst (handleAiAnalyze offline ?e)) = Some (FillTitleAndContent, error)"
    and "isAnalyzing (fst (analyze_begin ?e)) = False"
    by simp_all
  moreover from C5_analysis_guard [of ?f offline initial_app] f
  have "snd (handleAiAnalyze offline ?f) = [GenerateContent (gemini_request_of offline ''do X'' ''A'')]"
    by simp
  ultimately show ?thesis using e by simp
qed

section \<open>C6: revert, then save\<close>

text \<open>
  C6. A settled analysis stores its result in \<open>aiResult\<close>, shows the preview and leaves
  the Draft alone; so does the whole of \<open>handleAiAnalyze\<close> when the backend succeeds. With
  a result the text area shows the optimized text, a save would persist it, and an edit of
  the text area changes the result and not the Draft. Revert sets \<open>aiResult\<close> to \<open>null\<close>
  and changes nothing else, so the text area goes back to the Draft's content. Hence after
  an analysis of the Draft of \<open>st\<close>, an edit of its result, and a revert, the first call
  \<open>handleSave\<close> sends asks the storage service to persist the content the Draft had in
  \<open>st\<close>, both as content and as raw context: nothing of the optimized text is in it.
\<close>

theorem C6_revert_then_save:
  "aiResult (revert st) = JNull
   \<and> currentPrompt (revert st) = currentPrompt st
   \<and> edit_target (revert st) = Some (JStr (content (currentPrompt st)))
   \<and> currentPrompt (analyze_settled r st) = currentPrompt st
   \<and> content (persisted (save_call (revert st))) = Some (JStr (content (currentPrompt st)))
   \<and> excontext (persisted (save_call (revert st))) = Some (content (currentPrompt st))
   \<and> content (persisted (save_call (revert (analyze_settled (Inr res) st))))
       = Some (JStr (content (currentPrompt st)))
   \<and> (truthy res \<longrightarrow>
        currentPrompt (edit_preview t (analyze_settled (Inr res) st)) = currentPrompt st
        \<and> content (persisted (save_call (revert (edit_preview t (analyze_settled (Inr res) st)))))
            = Some (JStr (content (currentPrompt st))))
   \<and> revert st = st\<lparr>aiResult := JNull\<rparr>
   \<and> aiResult (analyze_settled (Inr res) st) = res
   \<and> viewMode (analyze_settled (Inr res) st) = PREVIEW
   \<and> (title (currentPrompt st) \<noteq> [] \<and> content (currentPrompt st) \<noteq> []
        \<and> fst (analyzePrompt E (aiModel st) (content (currentPrompt st)) (title (currentPrompt st)))
            = Inr res
      \<longrightarrow> fst (handleAiAnalyze E st) = analyze_settled (Inr res) (st\<lparr>isAnalyzing := True\<rparr>)
          \<and> aiResult (fst (handleAiAnalyze E st)) = res
          \<and> viewMode (fst (handleAiAnalyze E st)) = PREVIEW
          \<and> currentPrompt (fst (handleAiAnalyze E st)) = currentPrompt st)
   \<and> (truthy res \<longrightarrow>
        edit_target (analyze_settled (Inr res) st) = optimizedPrompt res
        \<and> content (persisted (save_call (analyze_settled (Inr res) st))) = optimizedPrompt res
        \<and> optimizedPrompt (aiResult (edit_preview t (analyze_settled (Inr res) st)))
            = Some (JStr t))
   \<and> (\<exists>cs. snd (handleSave E s) = Db (save_call s) # cs)
   \<and> (truthy res \<longrightarrow>
        (\<exists>c cs. snd (handleSave E (revert (edit_preview t (analyze_settled (Inr res) st))))
                  = Db c # cs
                \<and> content (persisted c) = Some (JStr (content (currentPrompt st)))
                \<and> excontext (persisted c) = Some (content (currentPrompt st))))
   \<and> (\<exists>c cs. snd (handleSave E (revert (analyze_settled (Inr res) st))) = Db c # cs
              \<and> content (persisted c) = Some (JStr (content (currentPrompt st)))
              \<and> excontext (persisted c) = Some (content (currentPrompt st)))
   \<and> (storage_answer E (save_call (revert st)) = Inr saved
      \<longrightarrow> snd (handleSave E (revert st)) = [Db (save_call (revert st)), GetAllPrompts]
          \<and> viewMode (fst (handleSave E (revert st))) = LIST)"
proof -
  have settled: "currentPrompt (analyze_settled r st) = currentPrompt st" for r
    by (cases r) (simp_all add: analyze_settled_def showToast_def)
  have saved: "content (persisted (save_call (revert u))) = Some (JStr (content (currentPrompt u)))"
    "excontext (persisted (save_call (revert u))) = Some (content (currentPrompt u))" for u
    by (simp_all add: persisted_save_call payloadBase_def revert_def Let_def)
  have edited: "currentPrompt (edit_preview t (analyze_settled (Inr res) st)) = currentPrompt st"
    if "truthy res"
    using that by (simp add: edit_preview_def analyze_settled_def)
  have sends: "\<exists>c cs. snd (handleSave E (revert u)) = Db c # cs
              \<and> content (persisted c) = Some (JStr (content (currentPrompt u)))
              \<and> excontext (persisted c) = Some (content (currentPrompt u))" for u
    using handleSave_sends [of E "revert u"] saved [of u] by blast
  have c1: "aiResult (revert st) = JNull"
    and c2: "currentPrompt (revert st) = currentPrompt st"
    and c3: "edit_target (revert st) = Some (JStr (content (currentPrompt st)))"
    and c9: "revert st = st\<lparr>aiResult := JNull\<rparr>"
    by (simp_all add: revert_def edit_target_def)
  have c7: "content (persisted (save_call (revert (analyze_settled (Inr res) st))))
       = Some (JStr (content (currentPrompt st)))"
    using saved(1) [of "analyze_settled (Inr res) st"] settled [of "Inr res"] by simp
  have c8: "truthy res \<longrightarrow>
        currentPrompt (edit_preview t (analyze_settled (Inr res) st)) = currentPrompt st
        \<and> content (persisted (save_call (revert (edit_preview t (analyze_settled (Inr res) st)))))
            = Some (JStr (content (currentPrompt st)))"
    using saved(1) [of "edit_preview t (analyze_settled (Inr res) st)"] edited by simp
  have c10: "aiResult (analyze_settled (Inr res) st) = res"
    and c11: "viewMode (analyze_settled (Inr res) st) = PREVIEW"
    by (simp_all add: analyze_settled_def)
  have c12: "title (currentPrompt st) \<noteq> [] \<and> content (currentPrompt st) \<noteq> []
        \<and> fst (analyzePrompt E (aiModel st) (content (currentPrompt st)) (title (currentPrompt st)))
            = Inr res
      \<longrightarrow> fst (handleAiAnalyze E st) = analyze_settled (Inr res) (st\<lparr>isAnalyzing := True\<rparr>)
          \<and> aiResult (fst (handleAiAnalyze E st)) = res
          \<and> viewMode (fst (handleAiAnalyze E st)) = PREVIEW
          \<and> currentPrompt (fst (handleAiAnalyze E st)) = currentPrompt st"
    by (simp add: handleAiAnalyze_unguarded analyze_guard_def analyze_settled_def)
  have c13: "truthy res \<longrightarrow>
        edit_target (analyze_settled (Inr res) st) = optimizedPrompt res
        \<and> content (persisted (save_call (analyze_settled (Inr res) st))) = optimizedPrompt res
        \<and> optimizedPrompt (aiResult (edit_preview t (analyze_settled (Inr res) st)))
            = Some (JStr t)"
    by (simp add: edit_target_def persisted_save_call payloadBase_def analyze_settled_def
        edit_preview_def optimizedPrompt_def read_prop_def set_prop_def Let_def)
  have c14: "\<exists>cs. snd (handleSave E s) = Db (save_call s) # cs"
    by (rule handleSave_sends)
  have c15: "truthy res \<longrightarrow>
        (\<exists>c cs. snd (handleSave E (revert (edit_preview t (analyze_settled (Inr res) st))))
                  = Db c # cs
                \<and> content (persisted c) = Some (JStr (content (currentPrompt st)))
                \<and> excontext (persisted c) = Some (content (currentPrompt st)))"
    using sends [of "edit_preview t (analyze_settled (Inr res) st)"] edited by auto
  have c16: "\<exists>c cs. snd (handleSave E (revert (analyze_settled (Inr res) st))) = Db c # cs
              \<and> content (persisted c) = Some (JStr (content (currentPrompt st)))
              \<and> excontext (persisted c) = Some (content (currentPrompt st))"
    using sends [of "analyze_settled (Inr res) st"] settled [of "Inr res"] by simp
  have c17: "storage_answer E (save_call (revert st)) = Inr saved
      \<longrightarrow> snd (handleSave E (revert st)) = [Db (save_call (revert st)), GetAllPrompts]
          \<and> viewMode (fst (handleSave E (revert st))) = LIST"
    by (cases "getAllPrompts E") (simp_all add: handleSave_def fetchPrompts_def showToast_def Let_def)
  show ?thesis
    by (intro conjI c1 c2 c3 settled saved c7 c8 c9 c10 c11 c12 c13 c14 c15 c16 c17)
qed

text \<open>
  The Draft \<open>do X\<close> is analysed by Gemini into \<open>do X, improved\<close>, the result is edited
  to \<open>do Y\<close> and then reverted: the save sends \<open>do X\<close> to \<open>createPrompt\<close> as content and
  as raw context, and refreshes the list.
\<close>

theorem C6_revert_then_save_witness:
  "truthy (JObj [(''optimizedPrompt'', JStr ''do X, improved'')])
   \<and> fst (analyzePrompt
        (storage_saves (draft ''A'' ''do X'' ''v1.0'')
           (parses ''R'' (JObj [(''optimizedPrompt'', JStr ''do X, improved'')])
              (gemini_answers (Some ''R'') offline)))
        GEMINI ''do X'' ''A'')
      = Inr (JObj [(''optimizedPrompt'', JStr ''do X, improved'')])
   \<and> aiResult (fst (handleAiAnalyze
        (storage_saves (draft ''A'' ''do X'' ''v1.0'')
           (parses ''R'' (JObj [(''optimizedPrompt'', JStr ''do X, improved'')])
              (gemini_answers (Some ''R'') offline)))
        (state_with EDIT None (draft ''A'' ''do X'' ''v1.0'') JNull)))
      = JObj [(''optimizedPrompt'', JStr ''do X, improved'')]
   \<and> optimizedPrompt (aiResult (edit_preview ''do Y''
        (analyze_settled (Inr (JObj [(''optimizedPrompt'', JStr ''do X, improved'')]))
           (state_with EDIT None (draft ''A'' ''do X'' ''v1.0'') JNull))))
      = Some (JStr ''do Y'')
   \<and> content (persisted (save_call (revert (edit_preview ''do Y''
        (analyze_settled (Inr (JObj [(''optimizedPrompt'', JStr ''do X, improved'')]))
           (state_with EDIT None (draft ''A'' ''do X'' ''v1.0'') JNull))))))
      = Some (JStr ''do X'')
   \<and> (\<exists>c cs. snd (handleSave
          (storage_saves (draft ''A'' ''do X'' ''v1.0'')
             (parses ''R'' (JObj [(''optimizedPrompt'', JStr ''do X, improved'')])
                (gemini_answers (Some ''R'') offline)))
          (revert (edit_preview ''do Y''
             (analyze_settled (Inr (JObj [(''optimizedPrompt'', JStr ''do X, improved'')]))
                (state_with EDIT None (draft ''A'' ''do X'' ''v1.0'') JNull))))) = Db c # cs
        \<and> content (persisted c) = Some (JStr ''do X'')
        \<and> excontext (persisted c) = Some ''do X'')
   \<and> snd (handleSave
          (storage_saves (draft ''A'' ''do X'' ''v1.0'')
             (parses ''R'' (JObj [(''optimizedPrompt'', JStr ''do X, improved'')])
                (gemini_answers (Some ''R'') offline)))
          (revert (state_with PREVIEW None (draft ''A'' ''do X'' ''v1.0'')
             (JObj [(''optimizedPrompt'', JStr ''do X, improved'')]))))
      = [Db (save_call (revert (state_with PREVIEW None (draft ''A'' ''do X'' ''v1.0'')
             (JObj [(''optimizedPrompt'', JStr ''do X, improved'')])))), GetAllPrompts]"
proof -
  let ?res = "JObj [(''optimizedPrompt'', JStr ''do X, improved'')]"
  let ?E = "storage_saves (draft ''A'' ''do X'' ''v1.0'')
      (parses ''R'' ?res (gemini_answers (Some ''R'') offline))"
  let ?st = "state_with EDIT None (draft ''A'' ''do X'' ''v1.0'') JNull"
  let ?shown = "state_with PREVIEW None (draft ''A'' ''do X'' ''v1.0'') ?res"
  have tr: "truthy ?res" by simp
  have f: "title (currentPrompt ?st) = ''A''" "content (currentPrompt ?st) = ''do X''"
      "aiModel ?st = GEMINI"
    by (simp_all add: state_with_def draft_def initial_state_def)
  have a: "fst (analyzePrompt ?E GEMINI ''do X'' ''A'') = Inr ?res"
    by (simp add: analyzePrompt_def storage_saves_def parses_def gemini_answers_def
        text_or_braces_def Let_def)
  have h: "title (currentPrompt ?st) \<noteq> [] \<and> content (currentPrompt ?st) \<noteq> []
      \<and> fst (analyzePrompt ?E (aiModel ?st) (content (currentPrompt ?st)) (title (currentPrompt ?st)))
          = Inr ?res"
    using f a by simp
  note inst = C6_revert_then_save [where E = ?E and st = ?st and res = ?res and t = "''do Y''"]
  note analysed = inst [THEN conjunct2, THEN conjunct2, THEN conjunct2, THEN conjunct2,
      THEN conjunct2, THEN conjunct2, THEN conjunct2, THEN conjunct2, THEN conjunct2,
      THEN conjunct2, THEN conjunct2, THEN conjunct1, rule_format, OF h]
  have stored: "aiResult (fst (handleAiAnalyze ?E ?st)) = ?res"
    by (rule analysed [THEN conjunct2, THEN conjunct1])
  note with_result = inst [THEN conjunct2, THEN conjunct2, THEN conjunct2, THEN conjunct2,
      THEN conjunct2, THEN conjunct2, THEN conjunct2, THEN conjunct2, THEN conjunct2,
      THEN conjunct2, THEN conjunct2, THEN conjunct2, THEN conjunct1, rule_format, OF tr]
  have edit: "optimizedPrompt (aiResult (edit_preview ''do Y'' (analyze_settled (Inr ?res) ?st)))
      = Some (JStr ''do Y'')"
    by (rule with_result [THEN conjunct2, THEN conjunct2])
  note reverted = inst [THEN conjunct2, THEN conjunct2, THEN conjunct2, THEN conjunct2,
      THEN conjunct2, THEN conjunct2, THEN conjunct2, THEN conjunct1, rule_format, OF tr]
  have kept: "content (persisted (save_call (revert (edit_preview ''do Y''
        (analyze_settled (Inr ?res) ?st))))) = Some (JStr ''do X'')"
    using reverted [THEN conjunct2] f by simp
  note sent = inst [THEN conjunct2, THEN conjunct2, THEN conjunct2, THEN conjunct2,
      THEN conjunct2, THEN conjunct2, THEN conjunct2, THEN conjunct2, THEN conjunct2,
      THEN conjunct2, THEN conjunct2, THEN conjunct2, THEN conjunct2, THEN conjunct2,
      THEN conjunct1, rule_format, OF tr]
  have saved: "\<exists>c cs. snd (handleSave ?E (revert (edit_preview ''do Y''
        (analyze_settled (Inr ?res) ?st)))) = Db c # cs
        \<and> content (persisted c) = Some (JStr ''do X'')
        \<and> excontext (persisted c) = Some ''do X''"
    using sent f by simp
  have ok: "storage_answer ?E (save_call (revert ?shown)) = Inr (draft ''A'' ''do X'' ''v1.0'')"
    by (simp add: storage_answer_def save_call_def revert_def state_with_def storage_saves_def)
  note whole = C6_revert_then_save [where E = ?E and st = ?shown
      and saved = "draft ''A'' ''do X'' ''v1.0''",
      THEN conjunct2, THEN conjunct2, THEN conjunct2, THEN conjunct2,
      THEN conjunct2, THEN conjunct2, THEN conjunct2, THEN conjunct2, THEN conjunct2,
      THEN conjunct2, THEN conjunct2, THEN conjunct2, THEN conjunct2, THEN conjunct2,
      THEN conjunct2, THEN conjunct2, rule_format, OF ok]
  show ?thesis
    by (intro conjI tr a stored edit kept saved whole [THEN conjunct1])
qed

section \<open>C7: the text a re-analysis sends\<close>

text \<open>
  C7. The request \<open>handleAiAnalyze\<close> sends is built from the Draft's title and content,
  whatever the view mode and whatever \<open>aiResult\<close> holds: the user message is
  \<open>Title: <title>\<close>, a line break, \<open>Content:\<close>, a line break and the Draft's content. It
  is the message of the Gemini request after the instruction text, and the second message
  of the Qwen request.
\<close>

theorem C7_reanalyze_source:
  "snd (handleAiAnalyze E (st\<lparr>viewMode := PREVIEW, aiResult := r\<rparr>))
     = snd (handleAiAnalyze E st)
   \<and> (title (currentPrompt st) \<noteq> [] \<and> content (currentPrompt st) \<noteq> [] \<longrightarrow>
        snd (handleAiAnalyze E (st\<lparr>viewMode := PREVIEW, aiResult := r\<rparr>)) =
          [case aiModel st of
             GEMINI \<Rightarrow> GenerateContent
               (gemini_request_of E (content (currentPrompt st)) (title (currentPrompt st)))
           | QWEN \<Rightarrow> Fetch
               (qwen_request_of E (content (currentPrompt st)) (title (currentPrompt st)))])
   \<and> contents_text (gemini_request_of E c t)
       = systemPrompt E @ newline @ newline @ ''Title: '' @ t @ newline @ ''Content:'' @ newline @ c
   \<and> body (qwen_request_of E c t) = Some (JObj
         [(''model'', JStr QWEN_MODEL),
          (''messages'', JArr
             [JObj [(''role'', JStr ''system''), (''content'', JStr (systemPrompt E))],
              JObj [(''role'', JStr ''user''),
                    (''content'', JStr (''Title: '' @ t @ newline @ ''Content:'' @ newline @ c))]]),
          (''response_format'', JObj [(''type'', JStr ''json_object'')])])"
proof -
  let ?p = "st\<lparr>viewMode := PREVIEW, aiResult := r\<rparr>"
  have same: "snd (handleAiAnalyze E ?p) = snd (handleAiAnalyze E st)"
  proof (cases "analyze_guard st")
    case True
    then show ?thesis by (simp add: handleAiAnalyze_guarded)
  next
    case False
    then show ?thesis by (simp add: handleAiAnalyze_calls)
  qed
  have sent: "snd (handleAiAnalyze E st) =
          [case aiModel st of
             GEMINI \<Rightarrow> GenerateContent
               (gemini_request_of E (content (currentPrompt st)) (title (currentPrompt st)))
           | QWEN \<Rightarrow> Fetch
               (qwen_request_of E (content (currentPrompt st)) (title (currentPrompt st)))]"
    if "title (currentPrompt st) \<noteq> [] \<and> content (currentPrompt st) \<noteq> []"
    using that by (simp add: handleAiAnalyze_calls analyzePrompt_calls analyze_guard_def)
  show ?thesis
    using same sent
    by (simp add: gemini_request_of_def qwen_request_of_def userMessage_def)
qed

text \<open>
  In the preview of the Draft \<open>do X\<close>, with the result edited to \<open>do Y\<close>, the re-analysis
  sends \<open>do X\<close>.
\<close>

theorem C7_reanalyze_source_witness:
  "title (currentPrompt (state_with EDIT None (draft ''A'' ''do X'' ''v1.0'') JNull)) \<noteq> []
   \<and> content (currentPrompt (state_with EDIT None (draft ''A'' ''do X'' ''v1.0'') JNull)) \<noteq> []
   \<and> snd (handleAiAnalyze offline
        ((state_with EDIT None (draft ''A'' ''do X'' ''v1.0'') JNull)
           \<lparr>viewMode := PREVIEW, aiResult := JObj [(''optimizedPrompt'', JStr ''do Y'')]\<rparr>))
      = [GenerateContent (gemini_request_of offline ''do X'' ''A'')]"
proof -
  let ?st = "state_with EDIT None (draft ''A'' ''do X'' ''v1.0'') JNull"
  have f: "title (currentPrompt ?st) = ''A''" "content (currentPrompt ?st) = ''do X''"
      "aiModel ?st = GEMINI"
    by (simp_all add: state_with_def draft_def initial_state_def)
  have h: "title (currentPrompt ?st) \<noteq> [] \<and> content (currentPrompt ?st) \<noteq> []"
    using f by simp
  note C7_reanalyze_source
         [where E = offline and st = ?st and r = "JObj [(''optimizedPrompt'', JStr ''do Y'')]"]
  from this [THEN conjunct2, THEN conjunct1, rule_format, OF h]
  show ?thesis using h f by simp
qed

section \<open>C8: the availability check\<close>

text \<open>
  C8. \<open>checkConnection\<close> resolves to a boolean for both backends and every behaviour of
  the collaborators; whatever is thrown inside its \<open>try\<close> makes it \<open>false\<close>. In
  particular it is \<open>false\<close> when \<open>fetch\<close> throws (no network, a timeout), when the
  response is not a success (a refused credential), and when Gemini has no key.
\<close>

theorem C8_checkConnection_never_throws:
  "(\<exists>b. checkConnection E model = Inr b)
   \<and> (checkConnection_try E model = Inl e \<longrightarrow> checkConnection E model = Inr False)
   \<and> (fetch E (models_request E) = Inl e \<longrightarrow> checkConnection E QWEN = Inr False)
   \<and> (fetch E (models_request E) = Inr res \<longrightarrow> checkConnection E QWEN = Inr (ok res))
   \<and> (process_env_API_KEY E = None \<or> process_env_API_KEY E = Some []
        \<longrightarrow> checkConnection E GEMINI = Inr False)"
proof (intro conjI impI)
  show "\<exists>b. checkConnection E model = Inr b"
    by (cases "checkConnection_try E model") (auto simp: checkConnection_def)
qed (auto simp: checkConnection_def checkConnection_try_def)

text \<open>
  With no network the check of Qwen is \<open>false\<close>; so it is on a response with a failure
  status, and so is the check of Gemini without a key.
\<close>

theorem C8_checkConnection_never_throws_witness:
  "fetch offline (models_request offline) = Inl failure
   \<and> checkConnection_try offline QWEN = Inl failure
   \<and> checkConnection offline QWEN = Inr False
   \<and> checkConnection (qwen_answers False (Inl failure) offline) QWEN = Inr False
   \<and> process_env_API_KEY offline = None
   \<and> checkConnection offline GEMINI = Inr False"
proof -
  have f: "fetch offline (models_request offline) = Inl failure"
    and t: "checkConnection_try offline QWEN = Inl failure"
    and n: "process_env_API_KEY offline = None"
    by (simp_all add: offline_def checkConnection_try_def)
  let ?E = "qwen_answers False (Inl failure) offline"
  let ?res = "\<lparr> ok = False, res_json = Inl failure \<rparr>"
  have g: "fetch ?E (models_request ?E) = Inr ?res"
    by (simp add: qwen_answers_def)
  note off = C8_checkConnection_never_throws [where E = offline and e = failure]
  from off [where model = QWEN, THEN conjunct2, THEN conjunct1, rule_format, OF t]
  have a: "checkConnection offline QWEN = Inr False" .
  from off [THEN conjunct2, THEN conjunct2, THEN conjunct1, rule_format, OF f]
  have "checkConnection offline QWEN = Inr False" .
  from C8_checkConnection_never_throws [where E = ?E and res = ?res,
      THEN conjunct2, THEN conjunct2, THEN conjunct2, THEN conjunct1, rule_format, OF g]
  have b: "checkConnection ?E QWEN = Inr False" by simp
  from off [THEN conjunct2, THEN conjunct2, THEN conjunct2, THEN conjunct2, rule_format,
      OF disjI1, OF n]
  have c: "checkConnection offline GEMINI = Inr False" .
  show ?thesis
    by (intro conjI f t a b n c)
qed

section \<open>C3: an analysis that fails\<close>

text \<open>
  C3. Each failure of the backend makes \<open>analyzePrompt\<close> throw: an exception of the Gemini
  call, a Gemini text that is not empty and that \<open>JSON.parse\<close> rejects, an exception of
  \<open>fetch\<close>, a response of Qwen that is not a success, a body that is not JSON, a body
  without \<open>choices[0].message\<close>, a content that \<open>JSON.parse\<close> rejects. The second part of
  \<open>handleAiAnalyze\<close> treats whatever is thrown in one way, in whatever state the exception
  arrives: the notice shows the message of the exception, or the default text when the
  message is empty, the analyzing flag is cleared, and nothing else changes, so that the view
  mode and \<open>aiResult\<close> are what they were and the failed call sets no result.

  One response that is not JSON is not reported. When the Gemini response has no text, or
  the empty text, which \<open>JSON.parse\<close> rejects, \<open>response.text || "{}"\<close> puts the literal
  \<open>{}\<close> in its place: \<open>analyzePrompt\<close> resolves with the empty object, and the caller
  stores it as the result and moves from EDIT to PREVIEW with no notice. The Qwen branch,
  given the same empty content, throws.
\<close>

theorem C3_analysis_failure:
  "(generateContent E (gemini_request_of E c t) = Inl e
      \<longrightarrow> fst (analyzePrompt E GEMINI c t) = Inl e)
   \<and> (generateContent E (gemini_request_of E c t) = Inr (Some reply) \<and> reply \<noteq> []
        \<and> JSON_parse E (Some (JStr reply)) = Inl e
      \<longrightarrow> fst (analyzePrompt E GEMINI c t) = Inl e)
   \<and> (fetch E (qwen_request_of E c t) = Inl e
      \<longrightarrow> fst (analyzePrompt E QWEN c t) = Inl e)
   \<and> (fetch E (qwen_request_of E c t) = Inr res \<and> \<not> ok res
      \<longrightarrow> fst (analyzePrompt E QWEN c t) = Inl (JsError ''Error'' ''Qwen API failed''))
   \<and> (fetch E (qwen_request_of E c t) = Inr res \<and> ok res \<and> res_json res = Inl e
      \<longrightarrow> fst (analyzePrompt E QWEN c t) = Inl e)
   \<and> (fetch E (qwen_request_of E c t) = Inr res \<and> ok res \<and> res_json res = Inr data
        \<and> qwen_content data = Inl e
      \<longrightarrow> fst (analyzePrompt E QWEN c t) = Inl e)
   \<and> (fetch E (qwen_request_of E c t) = Inr res \<and> ok res \<and> res_json res = Inr data
        \<and> qwen_content data = Inr v \<and> JSON_parse E v = Inl e
      \<longrightarrow> fst (analyzePrompt E QWEN c t) = Inl e)
   \<and> (title (currentPrompt st) \<noteq> [] \<and> content (currentPrompt st) \<noteq> []
        \<and> fst (analyzePrompt E (aiModel st) (content (currentPrompt st)) (title (currentPrompt st)))
            = Inl e
      \<longrightarrow> fst (handleAiAnalyze E st) =
            st\<lparr>isAnalyzing := False,
               toast := Some (if message e = [] then AnalysisFailedDefault else Message (message e),
                              error)\<rparr>
          \<and> viewMode (fst (handleAiAnalyze E st)) = viewMode st
          \<and> aiResult (fst (handleAiAnalyze E st)) = aiResult st
          \<and> currentPrompt (fst (handleAiAnalyze E st)) = currentPrompt st
          \<and> \<not> isAnalyzing (fst (handleAiAnalyze E st)))
   \<and> ((w = None \<or> w = Some []) \<and> generateContent E (gemini_request_of E c t) = Inr w
        \<and> JSON_parse E (Some (JStr [])) = Inl e
        \<and> JSON_parse E (Some (JStr ''{}'')) = Inr (JObj [])
      \<longrightarrow> fst (analyzePrompt E GEMINI c t) = Inr (JObj [])
          \<and> (fetch E (qwen_request_of E c t) = Inr res \<and> ok res \<and> res_json res = Inr data
               \<and> qwen_content data = Inr (Some (JStr []))
             \<longrightarrow> fst (analyzePrompt E QWEN c t) = Inl e))
   \<and> ((w = None \<or> w = Some []) \<and> aiModel st = GEMINI
        \<and> title (currentPrompt st) \<noteq> [] \<and> content (currentPrompt st) \<noteq> []
        \<and> generateContent E (gemini_request_of E (content (currentPrompt st)) (title (currentPrompt st)))
            = Inr w
        \<and> JSON_parse E (Some (JStr [])) = Inl e
        \<and> JSON_parse E (Some (JStr ''{}'')) = Inr (JObj [])
      \<longrightarrow> fst (handleAiAnalyze E st)
            = st\<lparr>aiResult := JObj [], viewMode := PREVIEW, isAnalyzing := False\<rparr>
          \<and> viewMode (fst (handleAiAnalyze E st)) = PREVIEW
          \<and> aiResult (fst (handleAiAnalyze E st)) = JObj []
          \<and> toast (fst (handleAiAnalyze E st)) = toast st)
   \<and> analyze_settled (Inl e) u =
       u\<lparr>toast := Some (if message e = [] then AnalysisFailedDefault else Message (message e),
                       error),
         isAnalyzing := False\<rparr>
   \<and> viewMode (analyze_settled (Inl e) u) = viewMode u
   \<and> aiResult (analyze_settled (Inl e) u) = aiResult u
   \<and> fire (AnalysisSettles i (Inl e)) a =
       a\<lparr>ui := analyze_settled (Inl e) (ui a),
         pending := take i (pending a) @ drop (Suc i) (pending a)\<rparr>"
proof -
  have c1: "generateContent E (gemini_request_of E c t) = Inl e
      \<longrightarrow> fst (analyzePrompt E GEMINI c t) = Inl e"
    by (simp add: analyzePrompt_def Let_def)
  have c2: "generateContent E (gemini_request_of E c t) = Inr (Some reply) \<and> reply \<noteq> []
        \<and> JSON_parse E (Some (JStr reply)) = Inl e
      \<longrightarrow> fst (analyzePrompt E GEMINI c t) = Inl e"
    by (simp add: analyzePrompt_def Let_def text_or_braces_def)
  have c3: "fetch E (qwen_request_of E c t) = Inl e
      \<longrightarrow> fst (analyzePrompt E QWEN c t) = Inl e"
    by (simp add: analyzePrompt_def Let_def)
  have c4: "fetch E (qwen_request_of E c t) = Inr res \<and> \<not> ok res
      \<longrightarrow> fst (analyzePrompt E QWEN c t) = Inl (JsError ''Error'' ''Qwen API failed'')"
    by (simp add: analyzePrompt_def Let_def)
  have c5: "fetch E (qwen_request_of E c t) = Inr res \<and> ok res \<and> res_json res = Inl e
      \<longrightarrow> fst (analyzePrompt E QWEN c t) = Inl e"
    by (simp add: analyzePrompt_def Let_def)
  have c6: "fetch E (qwen_request_of E c t) = Inr res \<and> ok res \<and> res_json res = Inr data
        \<and> qwen_content data = Inl e
      \<longrightarrow> fst (analyzePrompt E QWEN c t) = Inl e"
    by (simp add: analyzePrompt_def Let_def)
  have c7: "fetch E (qwen_request_of E c t) = Inr res \<and> ok res \<and> res_json res = Inr data
        \<and> qwen_content data = Inr v \<and> JSON_parse E v = Inl e
      \<longrightarrow> fst (analyzePrompt E QWEN c t) = Inl e" for v
    by (simp add: analyzePrompt_def Let_def)
  have c8: "title (currentPrompt st) \<noteq> [] \<and> content (currentPrompt st) \<noteq> []
        \<and> fst (analyzePrompt E (aiModel st) (content (currentPrompt st)) (title (currentPrompt st)))
            = Inl e
      \<longrightarrow> fst (handleAiAnalyze E st) =
            st\<lparr>isAnalyzing := False,
               toast := Some (if message e = [] then AnalysisFailedDefault else Message (message e),
                              error)\<rparr>
          \<and> viewMode (fst (handleAiAnalyze E st)) = viewMode st
          \<and> aiResult (fst (handleAiAnalyze E st)) = aiResult st
          \<and> currentPrompt (fst (handleAiAnalyze E st)) = currentPrompt st
          \<and> \<not> isAnalyzing (fst (handleAiAnalyze E st))"
    by (simp add: handleAiAnalyze_unguarded analyze_guard_def analyze_settled_def showToast_def)
  have braces: "text_or_braces w = ''{}''" if "w = None \<or> w = Some []"
    using that by (auto simp: text_or_braces_def)
  have c9: "(w = None \<or> w = Some []) \<and> generateContent E (gemini_request_of E c t) = Inr w
        \<and> JSON_parse E (Some (JStr [])) = Inl e
        \<and> JSON_parse E (Some (JStr ''{}'')) = Inr (JObj [])
      \<longrightarrow> fst (analyzePrompt E GEMINI c t) = Inr (JObj [])
          \<and> (fetch E (qwen_request_of E c t) = Inr res \<and> ok res \<and> res_json res = Inr data
               \<and> qwen_content data = Inr (Some (JStr []))
             \<longrightarrow> fst (analyzePrompt E QWEN c t) = Inl e)"
    using c7 [of "Some (JStr [])"] braces by (simp add: analyzePrompt_def Let_def)
  have c10: "(w = None \<or> w = Some []) \<and> aiModel st = GEMINI
        \<and> title (currentPrompt st) \<noteq> [] \<and> content (currentPrompt st) \<noteq> []
        \<and> generateContent E (gemini_request_of E (content (currentPrompt st)) (title (currentPrompt st)))
            = Inr w
        \<and> JSON_parse E (Some (JStr [])) = Inl e
        \<and> JSON_parse E (Some (JStr ''{}'')) = Inr (JObj [])
      \<longrightarrow> fst (handleAiAnalyze E st)
            = st\<lparr>aiResult := JObj [], viewMode := PREVIEW, isAnalyzing := False\<rparr>
          \<and> viewMode (fst (handleAiAnalyze E st)) = PREVIEW
          \<and> aiResult (fst (handleAiAnalyze E st)) = JObj []
          \<and> toast (fst (handleAiAnalyze E st)) = toast st"
    using braces
    by (simp add: handleAiAnalyze_unguarded analyze_guard_def analyze_settled_def
        analyzePrompt_def Let_def)
  have c11: "analyze_settled (Inl e) u =
       u\<lparr>toast := Some (if message e = [] then AnalysisFailedDefault else Message (message e),
                       error),
         isAnalyzing := False\<rparr>"
    and c12: "viewMode (analyze_settled (Inl e) u) = viewMode u"
    and c13: "aiResult (analyze_settled (Inl e) u) = aiResult u"
    by (simp_all add: analyze_settled_def showToast_def)
  have c14: "fire (AnalysisSettles i (Inl e)) a =
       a\<lparr>ui := analyze_settled (Inl e) (ui a),
         pending := take i (pending a) @ drop (Suc i) (pending a)\<rparr>"
    by simp
  show ?thesis
    by (intro conjI c1 c2 c3 c4 c5 c6 c7 c8 c9 c10 c11 c12 c13 c14)
qed

text \<open>
  With no network, the analysis of the Draft \<open>A\<close>, \<open>do X\<close> from the edit view fails on
  Gemini: the notice shows the message of the exception, the view stays EDIT and no result
  is set; the same when the exception arrives after the two parts of the handler ran apart.
  The other failures: a Gemini text \<open>oops\<close>, no network for Qwen, a failure status, a body
  that is not JSON, the body \<open>{}\<close>, and the content \<open>oops\<close>. Then the response that is
  not reported: Gemini answers with the empty text, which \<open>JSON.parse\<close> rejects, and the
  analysis ends in the preview with the empty object as its result and no notice, where
  Qwen answering with the empty content ends in the edit view with the notice.
\<close>

theorem C3_analysis_failure_witness:
  "generateContent offline (gemini_request_of offline ''do X'' ''A'') = Inl failure
   \<and> fst (analyzePrompt offline GEMINI ''do X'' ''A'') = Inl failure
   \<and> fst (handleAiAnalyze offline (state_with EDIT None (draft ''A'' ''do X'' ''v1.0'') JNull))
       = (state_with EDIT None (draft ''A'' ''do X'' ''v1.0'') JNull)
           \<lparr>isAnalyzing := False, toast := Some (Message ''Failed to fetch'', error)\<rparr>
   \<and> viewMode (fst (handleAiAnalyze offline (state_with EDIT None (draft ''A'' ''do X'' ''v1.0'') JNull)))
       = EDIT
   \<and> aiResult (fst (handleAiAnalyze offline (state_with EDIT None (draft ''A'' ''do X'' ''v1.0'') JNull)))
       = JNull
   \<and> run [ClickCreateNew, TypeTitle ''A'', TypeContent ''do X'', ClickAnalyze,
          AnalysisSettles 0 (Inl failure)] initial_app
       = Some \<lparr> ui = initial_state\<lparr>viewMode := EDIT, currentPrompt := draft ''A'' ''do X'' ''v1.0'',
                                    toast := Some (Message ''Failed to fetch'', error)\<rparr>,
                pending = [] \<rparr>
   \<and> fst (analyzePrompt (gemini_answers (Some ''oops'') offline) GEMINI ''do X'' ''A'')
       = Inl (JsError ''SyntaxError'' ''Unexpected token'')
   \<and> fst (analyzePrompt offline QWEN ''do X'' ''A'') = Inl failure
   \<and> fst (analyzePrompt (qwen_answers False (Inl failure) offline) QWEN ''do X'' ''A'')
       = Inl (JsError ''Error'' ''Qwen API failed'')
   \<and> fst (analyzePrompt (qwen_answers True (Inl failure) offline) QWEN ''do X'' ''A'')
       = Inl failure
   \<and> fst (analyzePrompt (qwen_answers True (Inr (JObj [])) offline) QWEN ''do X'' ''A'')
       = Inl (JsError ''TypeError''
           (''Cannot read properties of undefined (reading '' @ quoted ''0'' @ '')''))
   \<and> fst (analyzePrompt (qwen_answers True (Inr (qwen_body (JStr ''oops''))) offline)
            QWEN ''do X'' ''A'')
       = Inl (JsError ''SyntaxError'' ''Unexpected token'')
   \<and> JSON_parse (parses ''{}'' (JObj []) (gemini_answers (Some []) offline)) (Some (JStr []))
       = Inl (JsError ''SyntaxError'' ''Unexpected token'')
   \<and> fst (analyzePrompt (parses ''{}'' (JObj []) (gemini_answers (Some []) offline))
            GEMINI ''do X'' ''A'')
       = Inr (JObj [])
   \<and> viewMode (fst (handleAiAnalyze (parses ''{}'' (JObj []) (gemini_answers (Some []) offline))
            (state_with EDIT None (draft ''A'' ''do X'' ''v1.0'') JNull)))
       = PREVIEW
   \<and> aiResult (fst (handleAiAnalyze (parses ''{}'' (JObj []) (gemini_answers (Some []) offline))
            (state_with EDIT None (draft ''A'' ''do X'' ''v1.0'') JNull)))
       = JObj []
   \<and> toast (fst (handleAiAnalyze (parses ''{}'' (JObj []) (gemini_answers (Some []) offline))
            (state_with EDIT None (draft ''A'' ''do X'' ''v1.0'') JNull)))
       = None
   \<and> fst (handleAiAnalyze
            (parses ''{}'' (JObj []) (qwen_answers True (Inr (qwen_body (JStr []))) offline))
            ((state_with EDIT None (draft ''A'' ''do X'' ''v1.0'') JNull)\<lparr>aiModel := QWEN\<rparr>))
       = (state_with EDIT None (draft ''A'' ''do X'' ''v1.0'') JNull)
           \<lparr>aiModel := QWEN, isAnalyzing := False,
            toast := Some (Message ''Unexpected token'', error)\<rparr>"
proof -
  let ?st = "state_with EDIT None (draft ''A'' ''do X'' ''v1.0'') JNull"
  let ?bad_json = "JsError ''SyntaxError'' ''Unexpected token''"
  let ?no_choices = "JsError ''TypeError''
      (''Cannot read properties of undefined (reading '' @ quoted ''0'' @ '')'')"
  have f: "title (currentPrompt ?st) = ''A''" "content (currentPrompt ?st) = ''do X''"
      "aiModel ?st = GEMINI" "viewMode ?st = EDIT" "aiResult ?st = JNull" "toast ?st = None"
    by (simp_all add: state_with_def draft_def initial_state_def)
  \<comment> \<open>Gemini throws, and the handler\<close>
  have g: "generateContent offline (gemini_request_of offline ''do X'' ''A'') = Inl failure"
    by (simp add: offline_def)
  note inst = C3_analysis_failure [where E = offline and c = "''do X''" and t = "''A''"
      and e = failure and st = ?st]
  from inst [THEN conjunct1, rule_format, OF g]
  have a: "fst (analyzePrompt offline GEMINI ''do X'' ''A'') = Inl failure" .
  have h: "title (currentPrompt ?st) \<noteq> [] \<and> content (currentPrompt ?st) \<noteq> []
      \<and> fst (analyzePrompt offline (aiModel ?st) (content (currentPrompt ?st)) (title (currentPrompt ?st)))
          = Inl failure"
    using f a by simp
  note handled = inst [THEN conjunct2, THEN conjunct2, THEN conjunct2, THEN conjunct2,
      THEN conjunct2, THEN conjunct2, THEN conjunct2, THEN conjunct1, rule_format, OF h]
  \<comment> \<open>the exception arrives while the page is live\<close>
  have apart: "run [ClickCreateNew, TypeTitle ''A'', TypeContent ''do X'', ClickAnalyze,
          AnalysisSettles 0 (Inl failure)] initial_app
       = Some \<lparr> ui = initial_state\<lparr>viewMode := EDIT, currentPrompt := draft ''A'' ''do X'' ''v1.0'',
                                    toast := Some (Message ''Failed to fetch'', error)\<rparr>,
                pending = [] \<rparr>"
    by (simp add: initial_app_def initial_state_def handleCreateNew_def trigger_analysis_def
        analyze_begin_def analyze_guard_def draft_def empty_prompt_def failure_def
        C3_analysis_failure [THEN conjunct2, THEN conjunct2, THEN conjunct2, THEN conjunct2,
          THEN conjunct2, THEN conjunct2, THEN conjunct2, THEN conjunct2, THEN conjunct2,
          THEN conjunct2, THEN conjunct1])
  \<comment> \<open>a Gemini text that is not JSON\<close>
  let ?G = "gemini_answers (Some ''oops'') offline"
  have "generateContent ?G (gemini_request_of ?G ''do X'' ''A'') = Inr (Some ''oops'')
      \<and> ''oops'' \<noteq> [] \<and> JSON_parse ?G (Some (JStr ''oops'')) = Inl ?bad_json"
    by (simp add: gemini_answers_def offline_def)
  from C3_analysis_failure [where E = ?G and c = "''do X''" and t = "''A''" and e = ?bad_json
      and reply = "''oops''", THEN conjunct2, THEN conjunct1, rule_format, OF this]
  have b: "fst (analyzePrompt ?G GEMINI ''do X'' ''A'') = Inl ?bad_json" .
  \<comment> \<open>\<open>fetch\<close> throws\<close>
  have "fetch offline (qwen_request_of offline ''do X'' ''A'') = Inl failure"
    by (simp add: offline_def)
  from inst [THEN conjunct2, THEN conjunct2, THEN conjunct1, rule_format, OF this]
  have c: "fst (analyzePrompt offline QWEN ''do X'' ''A'') = Inl failure" .
  \<comment> \<open>a failure status\<close>
  let ?Q = "qwen_answers False (Inl failure) offline"
  let ?res = "\<lparr> ok = False, res_json = Inl failure \<rparr>"
  have "fetch ?Q (qwen_request_of ?Q ''do X'' ''A'') = Inr ?res \<and> \<not> ok ?res"
    by (simp add: qwen_answers_def)
  from C3_analysis_failure [where E = ?Q and c = "''do X''" and t = "''A''" and res = ?res,
      THEN conjunct2, THEN conjunct2, THEN conjunct2, THEN conjunct1, rule_format, OF this]
  have d: "fst (analyzePrompt ?Q QWEN ''do X'' ''A'') = Inl (JsError ''Error'' ''Qwen API failed'')" .
  \<comment> \<open>a body that is not JSON\<close>
  let ?B = "qwen_answers True (Inl failure) offline"
  let ?res = "\<lparr> ok = True, res_json = Inl failure \<rparr>"
  have "fetch ?B (qwen_request_of ?B ''do X'' ''A'') = Inr ?res \<and> ok ?res
      \<and> res_json ?res = Inl failure"
    by (simp add: qwen_answers_def)
  from C3_analysis_failure [where E = ?B and c = "''do X''" and t = "''A''" and res = ?res
      and e = failure,
      THEN conjunct2, THEN conjunct2, THEN conjunct2, THEN conjunct2, THEN conjunct1,
      rule_format, OF this]
  have e: "fst (analyzePrompt ?B QWEN ''do X'' ''A'') = Inl failure" .
  \<comment> \<open>a body without choices\<close>
  let ?S = "qwen_answers True (Inr (JObj [])) offline"
  let ?res = "\<lparr> ok = True, res_json = Inr (JObj []) \<rparr>"
  have "fetch ?S (qwen_request_of ?S ''do X'' ''A'') = Inr ?res \<and> ok ?res
      \<and> res_json ?res = Inr (JObj []) \<and> qwen_content (JObj []) = Inl ?no_choices"
    by (simp add: qwen_answers_def qwen_content_def read_prop_def)
  from C3_analysis_failure [where E = ?S and c = "''do X''" and t = "''A''" and res = ?res
      and e = ?no_choices and data = "JObj []",
      THEN conjunct2, THEN conjunct2, THEN conjunct2, THEN conjunct2, THEN conjunct2,
      THEN conjunct1, rule_format, OF this]
  have s: "fst (analyzePrompt ?S QWEN ''do X'' ''A'') = Inl ?no_choices" .
  \<comment> \<open>a content that is not JSON\<close>
  let ?C = "qwen_answers True (Inr (qwen_body (JStr ''oops''))) offline"
  let ?res = "\<lparr> ok = True, res_json = Inr (qwen_body (JStr ''oops'')) \<rparr>"
  have "fetch ?C (qwen_request_of ?C ''do X'' ''A'') = Inr ?res \<and> ok ?res
      \<and> res_json ?res = Inr (qwen_body (JStr ''oops''))
      \<and> qwen_content (qwen_body (JStr ''oops'')) = Inr (Some (JStr ''oops''))
      \<and> JSON_parse ?C (Some (JStr ''oops'')) = Inl ?bad_json"
    by (simp add: qwen_answers_def qwen_content_def qwen_body_def read_prop_def array_index_def
        digits_value_def digit_of_def dec.simps digit_char_def offline_def)
  from C3_analysis_failure [where E = ?C and c = "''do X''" and t = "''A''" and res = ?res
      and e = ?bad_json and data = "qwen_body (JStr ''oops'')" and v = "Some (JStr ''oops'')",
      THEN conjunct2, THEN conjunct2, THEN conjunct2, THEN conjunct2, THEN conjunct2,
      THEN conjunct2, THEN conjunct1, rule_format, OF this]
  have k: "fst (analyzePrompt ?C QWEN ''do X'' ''A'') = Inl ?bad_json" .
  have shown: "fst (handleAiAnalyze offline ?st)
      = ?st\<lparr>isAnalyzing := False, toast := Some (Message ''Failed to fetch'', error)\<rparr>"
    "viewMode (fst (handleAiAnalyze offline ?st)) = EDIT"
    "aiResult (fst (handleAiAnalyze offline ?st)) = JNull"
    using handled f by (simp_all add: failure_def)
  \<comment> \<open>the empty text of Gemini\<close>
  let ?D = "parses ''{}'' (JObj []) (gemini_answers (Some []) offline)"
  have p: "JSON_parse ?D (Some (JStr [])) = Inl ?bad_json"
    and q: "JSON_parse ?D (Some (JStr ''{}'')) = Inr (JObj [])"
    and r: "generateContent ?D (gemini_request_of ?D ''do X'' ''A'') = Inr (Some [])"
    by (simp_all add: parses_def gemini_answers_def offline_def)
  note empty = C3_analysis_failure [where E = ?D and c = "''do X''" and t = "''A''"
      and e = ?bad_json and w = "Some []" and st = ?st]
  have h1: "(Some [] = None \<or> Some [] = Some ([] :: string))
      \<and> generateContent ?D (gemini_request_of ?D ''do X'' ''A'') = Inr (Some [])
      \<and> JSON_parse ?D (Some (JStr [])) = Inl ?bad_json
      \<and> JSON_parse ?D (Some (JStr ''{}'')) = Inr (JObj [])"
    using p q r by simp
  note resolved = empty [THEN conjunct2, THEN conjunct2, THEN conjunct2, THEN conjunct2,
      THEN conjunct2, THEN conjunct2, THEN conjunct2, THEN conjunct2, THEN conjunct1,
      rule_format, OF h1, THEN conjunct1]
  have h2: "(Some [] = None \<or> Some [] = Some ([] :: string)) \<and> aiModel ?st = GEMINI
      \<and> title (currentPrompt ?st) \<noteq> [] \<and> content (currentPrompt ?st) \<noteq> []
      \<and> generateContent ?D (gemini_request_of ?D (content (currentPrompt ?st)) (title (currentPrompt ?st)))
          = Inr (Some [])
      \<and> JSON_parse ?D (Some (JStr [])) = Inl ?bad_json
      \<and> JSON_parse ?D (Some (JStr ''{}'')) = Inr (JObj [])"
    using p q r f by simp
  note stored = empty [THEN conjunct2, THEN conjunct2, THEN conjunct2, THEN conjunct2,
      THEN conjunct2, THEN conjunct2, THEN conjunct2, THEN conjunct2, THEN conjunct2,
      THEN conjunct1, rule_format, OF h2]
  have quiet: "toast (fst (handleAiAnalyze ?D ?st)) = None"
    using stored [THEN conjunct2, THEN conjunct2, THEN conjunct2] f(6) by simp
  \<comment> \<open>the empty content of Qwen\<close>
  let ?W = "parses ''{}'' (JObj []) (qwen_answers True (Inr (qwen_body (JStr []))) offline)"
  let ?qst = "?st\<lparr>aiModel := QWEN\<rparr>"
  let ?res = "\<lparr> ok = True, res_json = Inr (qwen_body (JStr [])) \<rparr>"
  have "fetch ?W (qwen_request_of ?W ''do X'' ''A'') = Inr ?res \<and> ok ?res
      \<and> res_json ?res = Inr (qwen_body (JStr []))
      \<and> qwen_content (qwen_body (JStr [])) = Inr (Some (JStr []))
      \<and> JSON_parse ?W (Some (JStr [])) = Inl ?bad_json"
    by (simp add: parses_def qwen_answers_def qwen_content_def qwen_body_def read_prop_def
        array_index_def digits_value_def digit_of_def dec.simps digit_char_def offline_def)
  from C3_analysis_failure [where E = ?W and c = "''do X''" and t = "''A''" and res = ?res
      and e = ?bad_json and data = "qwen_body (JStr [])" and v = "Some (JStr [])",
      THEN conjunct2, THEN conjunct2, THEN conjunct2, THEN conjunct2, THEN conjunct2,
      THEN conjunct2, THEN conjunct1, rule_format, OF this]
  have thrown: "fst (analyzePrompt ?W QWEN ''do X'' ''A'') = Inl ?bad_json" .
  have h3: "title (currentPrompt ?qst) \<noteq> [] \<and> content (currentPrompt ?qst) \<noteq> []
      \<and> fst (analyzePrompt ?W (aiModel ?qst) (content (currentPrompt ?qst)) (title (currentPrompt ?qst)))
          = Inl ?bad_json"
    using f thrown by simp
  from C3_analysis_failure [where E = ?W and e = ?bad_json and st = ?qst,
      THEN conjunct2, THEN conjunct2, THEN conjunct2, THEN conjunct2,
      THEN conjunct2, THEN conjunct2, THEN conjunct2, THEN conjunct1, rule_format, OF h3,
      THEN conjunct1]
  have reported: "fst (handleAiAnalyze ?W ?qst)
      = ?st\<lparr>aiModel := QWEN, isAnalyzing := False,
            toast := Some (Message ''Unexpected token'', error)\<rparr>"
    by simp
  show ?thesis
    by (intro conjI g a shown apart b c d e s k p resolved
        stored [THEN conjunct2, THEN conjunct1]
        stored [THEN conjunct2, THEN conjunct2, THEN conjunct1] quiet reported)
qed

section \<open>C10: a Gemini response without text\<close>

text \<open>
  C10. When the Gemini response has no text, or an empty one, \<open>analyzePrompt\<close> parses the
  literal \<open>{}\<close> instead and, \<open>JSON.parse\<close> reading it as the empty object, resolves with
  an object that has neither \<open>optimizedPrompt\<close> nor \<open>changeLog\<close>. \<open>handleAiAnalyze\<close>
  stores it and switches to the preview, with no notice of a failure. The text area of the
  preview then has the value \<open>undefined\<close>, and the test of the change log panel reads
  \<open>aiResult.changeLog.length\<close> on \<open>undefined\<close>: rendering the preview throws a
  \<open>TypeError\<close>.
\<close>

theorem C10_gemini_no_text:
  "((t = None \<or> t = Some []) \<and> generateContent E (gemini_request_of E c ti) = Inr t
      \<and> JSON_parse E (Some (JStr ''{}'')) = Inr (JObj [])
     \<longrightarrow> analyzePrompt E GEMINI c ti = (Inr (JObj []), [GenerateContent (gemini_request_of E c ti)]))
   \<and> read_prop (Some (JObj [])) ''optimizedPrompt'' = Inr None
   \<and> read_prop (Some (JObj [])) ''changeLog'' = Inr None
   \<and> ((t = None \<or> t = Some []) \<and> aiModel st = GEMINI
        \<and> title (currentPrompt st) \<noteq> [] \<and> content (currentPrompt st) \<noteq> []
        \<and> generateContent E (gemini_request_of E (content (currentPrompt st)) (title (currentPrompt st)))
            = Inr t
        \<and> JSON_parse E (Some (JStr ''{}'')) = Inr (JObj [])
     \<longrightarrow> fst (handleAiAnalyze E st) = st\<lparr>aiResult := JObj [], viewMode := PREVIEW, isAnalyzing := False\<rparr>
         \<and> toast (fst (handleAiAnalyze E st)) = toast st
         \<and> edit_target (fst (handleAiAnalyze E st)) = None
         \<and> changeLog_length (fst (handleAiAnalyze E st)) =
             Some (Inl (JsError ''TypeError''
               (''Cannot read properties of undefined (reading '' @ quoted ''length'' @ '')''))))"
proof (intro conjI impI)
  assume a: "(t = None \<or> t = Some []) \<and> generateContent E (gemini_request_of E c ti) = Inr t
      \<and> JSON_parse E (Some (JStr ''{}'')) = Inr (JObj [])"
  then have "text_or_braces t = ''{}''" by (auto simp: text_or_braces_def)
  with a show "analyzePrompt E GEMINI c ti = (Inr (JObj []), [GenerateContent (gemini_request_of E c ti)])"
    by (simp add: analyzePrompt_def Let_def)
next
  show "read_prop (Some (JObj [])) ''optimizedPrompt'' = Inr None"
    and "read_prop (Some (JObj [])) ''changeLog'' = Inr None"
    by (simp_all add: read_prop_def)
next
  assume a: "(t = None \<or> t = Some []) \<and> aiModel st = GEMINI
        \<and> title (currentPrompt st) \<noteq> [] \<and> content (currentPrompt st) \<noteq> []
        \<and> generateContent E (gemini_request_of E (content (currentPrompt st)) (title (currentPrompt st)))
            = Inr t
        \<and> JSON_parse E (Some (JStr ''{}'')) = Inr (JObj [])"
  then have "text_or_braces t = ''{}''" by (auto simp: text_or_braces_def)
  with a have "fst (analyzePrompt E (aiModel st) (content (currentPrompt st)) (title (currentPrompt st)))
      = Inr (JObj [])"
    by (simp add: analyzePrompt_def Let_def)
  moreover from a have "\<not> analyze_guard st" by (simp add: analyze_guard_def)
  ultimately show r: "fst (handleAiAnalyze E st)
      = st\<lparr>aiResult := JObj [], viewMode := PREVIEW, isAnalyzing := False\<rparr>"
    by (intro handleAiAnalyze_succeeded)
  show "toast (fst (handleAiAnalyze E st)) = toast st"
    by (simp add: r)
  show "edit_target (fst (handleAiAnalyze E st)) = None"
    by (simp add: r edit_target_def optimizedPrompt_def read_prop_def)
  show "changeLog_length (fst (handleAiAnalyze E st)) =
      Some (Inl (JsError ''TypeError''
        (''Cannot read properties of undefined (reading '' @ quoted ''length'' @ '')'')))"
    by (simp add: r changeLog_length_def read_prop_def)
qed

text \<open>
  Gemini answers the analysis of the Draft \<open>A\<close>, \<open>do X\<close> with no text: the state moves to
  the preview with the empty object as result, and the render of the preview throws.
\<close>

theorem C10_gemini_no_text_witness:
  "generateContent (parses ''{}'' (JObj []) (gemini_answers None offline))
       (gemini_request_of (parses ''{}'' (JObj []) (gemini_answers None offline)) ''do X'' ''A'')
     = Inr None
   \<and> JSON_parse (parses ''{}'' (JObj []) (gemini_answers None offline)) (Some (JStr ''{}''))
     = Inr (JObj [])
   \<and> analyzePrompt (parses ''{}'' (JObj []) (gemini_answers None offline)) GEMINI ''do X'' ''A''
     = (Inr (JObj []),
        [GenerateContent
           (gemini_request_of (parses ''{}'' (JObj []) (gemini_answers None offline)) ''do X'' ''A'')])
   \<and> fst (handleAiAnalyze (parses ''{}'' (JObj []) (gemini_answers None offline))
          (state_with EDIT None (draft ''A'' ''do X'' ''v1.0'') JNull))
     = (state_with EDIT None (draft ''A'' ''do X'' ''v1.0'') JNull)
         \<lparr>aiResult := JObj [], viewMode := PREVIEW, isAnalyzing := False\<rparr>
   \<and> changeLog_length (fst (handleAiAnalyze (parses ''{}'' (JObj []) (gemini_answers None offline))
          (state_with EDIT None (draft ''A'' ''do X'' ''v1.0'') JNull)))
     = Some (Inl (JsError ''TypeError''
         (''Cannot read properties of undefined (reading '' @ quoted ''length'' @ '')'')))"
proof -
  let ?E = "parses ''{}'' (JObj []) (gemini_answers None offline)"
  let ?st = "state_with EDIT None (draft ''A'' ''do X'' ''v1.0'') JNull"
  have f: "title (currentPrompt ?st) = ''A''" "content (currentPrompt ?st) = ''do X''"
      "aiModel ?st = GEMINI"
    by (simp_all add: state_with_def draft_def initial_state_def)
  have g: "generateContent ?E (gemini_request_of ?E ''do X'' ''A'') = Inr None"
    and p: "JSON_parse ?E (Some (JStr ''{}'')) = Inr (JObj [])"
    by (simp_all add: parses_def gemini_answers_def)
  note inst = C10_gemini_no_text [where E = ?E and st = ?st and t = None and c = "''do X''"
      and ti = "''A''"]
  have h1: "(None = None \<or> None = Some []) \<and> generateContent ?E (gemini_request_of ?E ''do X'' ''A'')
        = Inr None \<and> JSON_parse ?E (Some (JStr ''{}'')) = Inr (JObj [])"
    using g p by simp
  note resolved = inst [THEN conjunct1, rule_format, OF h1]
  have h2: "(None = None \<or> None = Some []) \<and> aiModel ?st = GEMINI
        \<and> title (currentPrompt ?st) \<noteq> [] \<and> content (currentPrompt ?st) \<noteq> []
        \<and> generateContent ?E (gemini_request_of ?E (content (currentPrompt ?st)) (title (currentPrompt ?st)))
            = Inr None
        \<and> JSON_parse ?E (Some (JStr ''{}'')) = Inr (JObj [])"
    using f g p by simp
  note concl = inst [THEN conjunct2, THEN conjunct2, THEN conjunct2, rule_format, OF h2]
  show ?thesis
    by (intro conjI g p resolved concl [THEN conjunct1]
        concl [THEN conjunct2, THEN conjunct2, THEN conjunct2])
qed

section \<open>C4: a second analysis while one is in flight\<close>

text \<open>
  C4. The button of the edit view is disabled while \<open>isAnalyzing\<close> is set. The button of
  the preview is not: in the preview, with the flag set and a Draft that passes the guard,
  the re-analysis is offered and sends one more request next to those in flight. Along the
  runs that do not use the re-analysis button, at most one request is in flight at any
  point.
\<close>

theorem C4_trigger_while_analyzing:
  "(isAnalyzing (ui a) \<longrightarrow> \<not> offered a ClickAnalyze)
   \<and> (viewMode (ui a) = PREVIEW \<and> isAnalyzing (ui a)
        \<and> title (currentPrompt (ui a)) \<noteq> [] \<and> content (currentPrompt (ui a)) \<noteq> []
      \<longrightarrow> offered a ClickReanalyze
          \<and> pending (fire ClickReanalyze a) =
              pending a @ [(aiModel (ui a), content (currentPrompt (ui a)),
                            title (currentPrompt (ui a)))])
   \<and> (run es initial_app = Some b \<and> ClickReanalyze \<notin> set es
      \<longrightarrow> length (pending b) \<le> 1 \<and> (isAnalyzing (ui b) \<longleftrightarrow> pending b \<noteq> []))"
proof (intro conjI impI)
  assume "run es initial_app = Some b \<and> ClickReanalyze \<notin> set es"
  then have "one_at_most b"
    using one_at_most_run [of es initial_app b] one_at_most_initial by simp
  then show "length (pending b) \<le> 1" and "isAnalyzing (ui b) \<longleftrightarrow> pending b \<noteq> []"
    by (simp_all add: one_at_most_def)
qed (simp_all add: trigger_analysis_unguarded analyze_guard_def)

text \<open>
  From the start of the program: a new prompt, a title, a content, the analysis button,
  and the side bar's preview button lead to the preview with one request in flight; the
  re-analysis button then sends a second one. Back in the edit view the analysis button is
  still disabled.
\<close>

theorem C4_trigger_while_analyzing_witness:
  "run [ClickCreateNew, TypeTitle ''A'', TypeContent ''do X'', ClickAnalyze, NavPreview] initial_app
     = Some busy_preview
   \<and> isAnalyzing (ui busy_preview)
   \<and> pending busy_preview = [(GEMINI, ''do X'', ''A'')]
   \<and> offered busy_preview ClickReanalyze
   \<and> pending (fire ClickReanalyze busy_preview) = [(GEMINI, ''do X'', ''A''), (GEMINI, ''do X'', ''A'')]
   \<and> run [ClickCreateNew, TypeTitle ''A'', TypeContent ''do X'', ClickAnalyze, NavPreview,
           ClickReanalyze] initial_app
       = Some (busy_preview\<lparr>pending := [(GEMINI, ''do X'', ''A''), (GEMINI, ''do X'', ''A'')]\<rparr>)
   \<and> viewMode (ui (fire BackFromPreview busy_preview)) = EDIT
   \<and> isAnalyzing (ui (fire BackFromPreview busy_preview))
   \<and> \<not> offered (fire BackFromPreview busy_preview) ClickAnalyze
   \<and> ClickReanalyze \<notin> set [ClickCreateNew, TypeTitle ''A'', TypeContent ''do X'', ClickAnalyze,
                              NavPreview]
   \<and> length (pending busy_preview) \<le> 1"
proof -
  have reach: "run [ClickCreateNew, TypeTitle ''A'', TypeContent ''do X'', ClickAnalyze, NavPreview]
      initial_app = Some busy_preview"
    by (simp add: initial_app_def initial_state_def busy_preview_def handleCreateNew_def
        trigger_analysis_def analyze_begin_def analyze_guard_def draft_def empty_prompt_def)
  have f: "viewMode (ui busy_preview) = PREVIEW" "isAnalyzing (ui busy_preview)"
      "title (currentPrompt (ui busy_preview)) = ''A''"
      "content (currentPrompt (ui busy_preview)) = ''do X''"
      "aiModel (ui busy_preview) = GEMINI" "pending busy_preview = [(GEMINI, ''do X'', ''A'')]"
    by (simp_all add: busy_preview_def draft_def initial_state_def)
  have h: "viewMode (ui busy_preview) = PREVIEW \<and> isAnalyzing (ui busy_preview)
        \<and> title (currentPrompt (ui busy_preview)) \<noteq> []
        \<and> content (currentPrompt (ui busy_preview)) \<noteq> []"
    using f by simp
  from C4_trigger_while_analyzing [of busy_preview, THEN conjunct2, THEN conjunct1,
      rule_format, OF h] f
  have again: "offered busy_preview ClickReanalyze"
    "pending (fire ClickReanalyze busy_preview) = [(GEMINI, ''do X'', ''A''), (GEMINI, ''do X'', ''A'')]"
    by simp_all
  have all: "run [ClickCreateNew, TypeTitle ''A'', TypeContent ''do X'', ClickAnalyze, NavPreview,
           ClickReanalyze] initial_app
       = Some (busy_preview\<lparr>pending := [(GEMINI, ''do X'', ''A''), (GEMINI, ''do X'', ''A'')]\<rparr>)"
    by (simp add: initial_app_def initial_state_def busy_preview_def handleCreateNew_def
        trigger_analysis_def analyze_begin_def analyze_guard_def draft_def empty_prompt_def)
  have returned: "viewMode (ui (fire BackFromPreview busy_preview)) = EDIT"
    "isAnalyzing (ui (fire BackFromPreview busy_preview))"
    using f by simp_all
  from C4_trigger_while_analyzing [of "fire BackFromPreview busy_preview", THEN conjunct1,
      rule_format, OF returned(2)]
  have disabled: "\<not> offered (fire BackFromPreview busy_preview) ClickAnalyze" .
  have none: "ClickReanalyze \<notin> set [ClickCreateNew, TypeTitle ''A'', TypeContent ''do X'',
      ClickAnalyze, NavPreview]"
    by simp
  from C4_trigger_while_analyzing [where b = busy_preview
      and es = "[ClickCreateNew, TypeTitle ''A'', TypeContent ''do X'', ClickAnalyze, NavPreview]",
      THEN conjunct2, THEN conjunct2, rule_format, OF conjI, OF reach none]
  have single: "length (pending busy_preview) \<le> 1" by simp
  show ?thesis
    by (intro conjI reach f(2) f(6) again all returned disabled none single)
qed

end
